theory Spec2Isabelle
  imports Main
begin

section \<open>JavaScript strings\<close>

text \<open>
  A JavaScript string is modelled as a \<^typ>\<open>string\<close> whose characters are the code units
  \<open>0x00 .. 0xFF\<close> (Latin-1). In that range the white space that \<open>trim\<close> and
  \<open>trimEnd\<close> remove is TAB, LF, VT, FF, CR, SPACE and NBSP, and the UTF-8 encoding that
  \<open>TextEncoder\<close> produces takes one byte for a code unit below \<open>0x80\<close> and two bytes
  otherwise.
\<close>

definition isWhiteSpace :: "char \<Rightarrow> bool" where
  "isWhiteSpace c =
     (c = CHR 0x09 \<or> c = CHR 0x0A \<or> c = CHR 0x0B \<or> c = CHR 0x0C \<or> c = CHR 0x0D
      \<or> c = CHR 0x20 \<or> c = CHR 0xA0)"

definition trimStart :: "string \<Rightarrow> string" where
  "trimStart s = dropWhile isWhiteSpace s"

definition trimEnd :: "string \<Rightarrow> string" where
  "trimEnd s = rev (dropWhile isWhiteSpace (rev s))"

definition trim :: "string \<Rightarrow> string" where
  "trim s = trimEnd (trimStart s)"

definition startsWith :: "string \<Rightarrow> string \<Rightarrow> bool" where
  "startsWith p s = (take (length p) s = p)"

definition endsWith :: "string \<Rightarrow> string \<Rightarrow> bool" where
  "endsWith p s = (length p \<le> length s \<and> drop (length s - length p) s = p)"

text \<open>\<open>s.includes(p)\<close>: \<open>p\<close> occurs in \<open>s\<close> as a contiguous substring.\<close>

fun includesStr :: "string \<Rightarrow> string \<Rightarrow> bool" where
  "includesStr p [] = (p = [])"
| "includesStr p (c # cs) = (startsWith p (c # cs) \<or> includesStr p cs)"

text \<open>\<open>s.split(sep)\<close> for a one-character separator; the result is never empty.\<close>

fun split_on :: "char \<Rightarrow> string \<Rightarrow> string list" where
  "split_on sep [] = [[]]"
| "split_on sep (c # cs) =
     (if c = sep then [] # split_on sep cs
      else (case split_on sep cs of
              [] \<Rightarrow> [[c]]
            | w # ws \<Rightarrow> (c # w) # ws))"

text \<open>\<open>parts.join(sep)\<close>.\<close>

fun joinWith :: "string \<Rightarrow> string list \<Rightarrow> string" where
  "joinWith sep [] = []"
| "joinWith sep [w] = w"
| "joinWith sep (w # v # ws) = w @ sep @ joinWith sep (v # ws)"




section \<open>scripts/types.ts\<close>

text \<open>
  \<open>DeploymentConfig\<close>. The interface declares \<open>mauticLocale\<close>; the object literal that
  \<open>loadDeploymentConfig\<close> returns sets \<open>mauticLanguage\<close> instead, so both fields are kept.
\<close>

record DeploymentConfig =
  emailAddress :: string
  mauticPassword :: string
  ipAddress :: string
  port :: string
  mauticVersion :: string
  mauticThemes :: "string option"
  mauticPlugins :: "string option"
  mauticLanguagePackUrl :: "string option"
  mauticLanguage :: "string option"
  mauticLocale :: "string option"
  defaultTimezone :: string
  mysqlDatabase :: string
  mysqlUser :: string
  mysqlPassword :: string
  mysqlRootPassword :: string
  domainName :: "string option"
  githubToken :: "string option"

record ContainerInfo =
  name :: string
  image :: string
  status :: string
  health :: "string option"

record ProcessResult =
  success :: bool
  output' :: string
  exitCode :: int

text \<open>
  A JavaScript \<open>Error\<close> with its message, and the \<open>SyntaxError\<close> that the import of a
  module throws when its text does not parse (its message is not modelled).
\<close>

datatype error = Error string | SyntaxError

text \<open>Truthiness of an optional string: \<open>undefined\<close> and \<open>''\<close> are falsy.\<close>

fun truthy :: "string option \<Rightarrow> bool" where
  "truthy None = False"
| "truthy (Some s) = (s \<noteq> [])"

text \<open>\<open>x || d\<close> for an optional string \<open>x\<close>.\<close>

fun orElse :: "string option \<Rightarrow> string \<Rightarrow> string" where
  "orElse None d = d"
| "orElse (Some s) d = (if s = [] then d else s)"


section \<open>scripts/config.ts\<close>

text \<open>
  The body of the loop over the lines of \<open>deploy.env\<close>: \<open>config\<close> is the object being
  filled, a map from keys to values.
\<close>

definition parseLine :: "(string \<rightharpoonup> string) \<Rightarrow> string \<Rightarrow> (string \<rightharpoonup> string)" where
  "parseLine config line =
     (let trimmed = trim line in
      if trimmed \<noteq> [] \<and> \<not> startsWith ''#'' trimmed \<and> includesStr ''='' trimmed then
        (case split_on CHR ''='' trimmed of
           [] \<Rightarrow> config
         | key # valueParts \<Rightarrow>
             if key \<noteq> [] then config(key \<mapsto> joinWith ''='' valueParts) else config)
      else config)"

definition parseLines :: "string list \<Rightarrow> (string \<rightharpoonup> string)" where
  "parseLines ls = foldl parseLine Map.empty ls"

definition parseEnv :: "string \<Rightarrow> (string \<rightharpoonup> string)" where
  "parseEnv envContent = parseLines (split_on CHR 0x0A envContent)"

definition required :: "string list" where
  "required =
     [''EMAIL_ADDRESS'', ''MAUTIC_PASSWORD'', ''IP_ADDRESS'', ''PORT'', ''MAUTIC_VERSION'',
      ''MYSQL_DATABASE'', ''MYSQL_USER'', ''MYSQL_PASSWORD'', ''MYSQL_ROOT_PASSWORD'']"

text \<open>\<open>!config[field]\<close>: the key is absent or its value is the empty string.\<close>

definition notSet :: "(string \<rightharpoonup> string) \<Rightarrow> string \<Rightarrow> bool" where
  "notSet config field = (\<not> truthy (config field))"

text \<open>A required field read after validation (\<open>config.KEY\<close>).\<close>

definition field :: "(string \<rightharpoonup> string) \<Rightarrow> string \<Rightarrow> string" where
  "field config k = (case config k of None \<Rightarrow> [] | Some v \<Rightarrow> v)"

text \<open>
  The object literal that \<open>loadDeploymentConfig\<close> returns (lines 36 to 51 of the file), as
  it is written: the name of each property, and whether a comma follows its value.
\<close>

definition returnedProperties :: "(string \<times> bool) list" where
  "returnedProperties =
     [(''emailAddress'', True),
      (''mauticPassword'', True),
      (''ipAddress'', True),
      (''port'', True),
      (''mauticVersion'', True),
      (''mauticThemes'', True),
      (''mauticPlugins'', True),
      (''mauticLanguagePackUrl'', True),
      (''mauticLanguage'', True),
      (''defaultTimezone'', False),
      (''mysqlDatabase'', True),
      (''mysqlUser'', True),
      (''mysqlPassword'', True),
      (''mysqlRootPassword'', True),
      (''domainName'', True),
      (''githubToken'', False)]"

text \<open>
  The grammar of an object literal: a comma separates each property from the next one;
  after the last property it is optional.
\<close>

fun propertiesParse :: "(string \<times> bool) list \<Rightarrow> bool" where
  "propertiesParse [] = True"
| "propertiesParse [p] = True"
| "propertiesParse (p # q # ps) = (snd p \<and> propertiesParse (q # ps))"

text \<open>
  \<open>loadDeploymentConfig\<close>, called through the module as it is shipped. A module whose
  text does not parse throws a \<open>SyntaxError\<close> when it is imported, before any of its
  statements runs; \<open>scripts/config.ts\<close> holds this one function. Otherwise the function
  runs: its argument is what \<open>Deno.readTextFile('deploy.env')\<close> gives, the content or the
  message of the error it throws, and every error is caught and thrown again with the
  prefix \<open>Failed to load deployment configuration:\<close>.
\<close>

definition loadDeploymentConfig :: "string + string \<Rightarrow> error + DeploymentConfig" where
  "loadDeploymentConfig file =
     (if \<not> propertiesParse returnedProperties then Inl SyntaxError
      else
        (case file of
           Inl errorMessage \<Rightarrow>
             Inl (Error (''Failed to load deployment configuration: '' @ errorMessage))
         | Inr envContent \<Rightarrow>
             (let config = parseEnv envContent in
              case find (notSet config) required of
                Some f \<Rightarrow>
                  Inl (Error (''Failed to load deployment configuration: ''
                              @ ''Required variable '' @ f @ '' is not set''))
              | None \<Rightarrow>
                  Inr \<lparr> emailAddress = field config ''EMAIL_ADDRESS'',
                        mauticPassword = field config ''MAUTIC_PASSWORD'',
                        ipAddress = field config ''IP_ADDRESS'',
                        port = field config ''PORT'',
                        mauticVersion = field config ''MAUTIC_VERSION'',
                        mauticThemes = config ''MAUTIC_THEMES'',
                        mauticPlugins = config ''MAUTIC_PLUGINS'',
                        mauticLanguagePackUrl = config ''MAUTIC_LANGUAGE_PACK_URL'',
                        mauticLanguage = config ''MAUTIC_LANGUAGE'',
                        mauticLocale = None,
                        defaultTimezone = orElse (config ''DEFAULT_TIMEZONE'') ''UTC'',
                        mysqlDatabase = field config ''MYSQL_DATABASE'',
                        mysqlUser = field config ''MYSQL_USER'',
                        mysqlPassword = field config ''MYSQL_PASSWORD'',
                        mysqlRootPassword = field config ''MYSQL_ROOT_PASSWORD'',
                        domainName = config ''DOMAIN_NAME'',
                        githubToken = config ''GITHUB_TOKEN'' \<rparr>)))"

section \<open>The host\<close>

text \<open>
  Everything the program does to the remote host goes through an external operation: a
  shell command run by \<open>ProcessManager\<close>, a \<open>Deno\<close> file primitive, or a timer. An
  operation is named by the command it runs, with the parameters the program puts into it.
\<close>

datatype dockerOp =
    DockerInfo                 \<comment> \<open>\<open>docker info\<close>\<close>
  | DockerInspect string       \<comment> \<open>\<open>docker inspect NAME --format '{{.Name}},{{.Config.Image}},{{.State.Status}},{{.State.Health.Status}}' 2>/dev/null || echo "not_found"\<close>\<close>
  | DockerPull string          \<comment> \<open>\<open>docker pull IMAGE\<close>\<close>
  | ComposeDown                \<comment> \<open>\<open>docker compose down\<close>\<close>
  | ComposeRm                  \<comment> \<open>\<open>docker compose rm -f\<close>\<close>
  | ComposeConfig              \<comment> \<open>\<open>docker compose config\<close>\<close>
  | ComposeUp                  \<comment> \<open>\<open>set -a && source deploy.env && docker compose up -d\<close>\<close>
  | ComposePs                  \<comment> \<open>\<open>docker compose ps\<close>\<close>
  | ComposePsAll               \<comment> \<open>\<open>docker compose ps -a\<close>\<close>
  | ComposePsHealth            \<comment> \<open>\<open>docker compose ps --format "table ..."\<close>\<close>
  | ComposeLogs                \<comment> \<open>\<open>docker compose logs --tail 30\<close>\<close>
  | DockerLogs string nat      \<comment> \<open>\<open>docker logs NAME --tail N\<close>\<close>
  | ExecPsMysql string         \<comment> \<open>\<open>docker exec NAME ps aux | grep mysql || echo "No MySQL process found"\<close>\<close>
  | ExecLsMysql string         \<comment> \<open>\<open>docker exec NAME ls -la /var/lib/mysql/ | head -10 || echo "Cannot access MySQL data"\<close>\<close>

datatype fileOp =
    ReadTextFile string            \<comment> \<open>\<open>Deno.readTextFile(path)\<close>; the output is the content\<close>
  | WriteTextFile string string    \<comment> \<open>\<open>Deno.writeTextFile(path, content)\<close>\<close>
  | Chmod string                   \<comment> \<open>\<open>Deno.chmod(path, 0o600)\<close>\<close>
  | Stat string                    \<comment> \<open>\<open>Deno.stat(path)\<close>\<close>

datatype deployOp =
    TestComposeFile          \<comment> \<open>\<open>test -f docker-compose.yml\<close>\<close>
  | TestDataDirs             \<comment> \<open>\<open>test -d mautic_data && test -d mysql_data\<close>\<close>
  | TestEnvFile              \<comment> \<open>\<open>test -f .mautic_env\<close>\<close>
  | MkdirData                \<comment> \<open>\<open>mkdir -p mautic_data mysql_data logs\<close>\<close>
  | ChmodData                \<comment> \<open>\<open>chmod 755 mautic_data mysql_data logs\<close>\<close>
  | LsEnvFile                \<comment> \<open>\<open>ls -la .mautic_env\<close>\<close>
  | HeadEnvFile              \<comment> \<open>\<open>head -10 .mautic_env | sed "s/=.*/=***MASKED***/"\<close>\<close>
  | HeadComposeFile          \<comment> \<open>\<open>head -50 docker-compose.yml\<close>\<close>
  | DockerPsAll              \<comment> \<open>\<open>docker ps -a\<close>\<close>
  | LanguagePackInstall string
      \<comment> \<open>\<open>docker exec --user root mautibox_web bash -c '...'\<close>, the download and unpacking of the pack at URL\<close>
  | DbConnectionTest         \<comment> \<open>\<open>docker exec mautibox_web php -r 'try { $pdo = new PDO(...); ...'\<close>\<close>
  | InstallHelp              \<comment> \<open>\<open>docker exec mautibox_web timeout 30 php /var/www/html/bin/console mautic:install --help\<close>\<close>
  | SyncMetadataStorage      \<comment> \<open>\<open>docker exec ... php ./bin/console doctrine:migrations:sync-metadata-storage --no-interaction\<close>\<close>
  | MauticInstall string string string
      \<comment> \<open>\<open>timeout 300 docker exec ... php ./bin/console mautic:install SITEURL --admin_email=E --admin_password=P --force --no-interaction -vvv\<close>\<close>
  | ClearCache               \<comment> \<open>\<open>docker exec mautibox_web bash -c 'rm -rf /var/www/html/var/cache/prod* /var/www/html/var/cache/dev* || true'\<close>\<close>
  | CatHtaccess string       \<comment> \<open>\<open>docker exec mautibox_web bash -c 'cat /var/www/html/docroot/media/DIR/.htaccess 2>/dev/null'\<close>\<close>
  | FixHtaccess string       \<comment> \<open>\<open>docker exec mautibox_web bash -c 'cat > /var/www/html/docroot/media/DIR/.htaccess << "EOF" ...'\<close>\<close>
  | CopyCustomisation        \<comment> \<open>the recursive \<open>copyFiles\<close> of \<open>applyWhiteLabeling\<close> (\<open>Deno.readDir\<close>, \<open>docker exec mkdir -p\<close>, \<open>docker cp\<close>)\<close>

text \<open>
  The operations of the theme and plugin installers. All of them are
  \<open>docker exec mautibox_web bash -c '...'\<close> commands, run in
  \<open>/var/www/html/docroot/themes\<close> or in \<open>/var/www/html/docroot/plugins\<close>.
\<close>

datatype packageOp =
    ThemeTestDir string        \<comment> \<open>\<open>test -d /var/www/html/docroot/themes/DIR\<close>\<close>
  | ThemeRemoveDir string      \<comment> \<open>\<open>rm -rf /var/www/html/docroot/themes/DIR\<close>\<close>
  | ThemeDownloadAndExtract string "string option" string
      \<comment> \<open>\<open>cd .../themes && curl -L -o theme.zip [-H "Authorization: Bearer TOKEN" ...] "URL" && EXTRACT\<close>, where
          \<open>EXTRACT\<close> unzips \<open>theme.zip\<close> (into DIR, if one is given) and then removes it\<close>
  | ThemeChown string          \<comment> \<open>\<open>chown -R www-data:www-data .../themes/DIR && chmod -R 755 .../themes/DIR\<close>\<close>
  | ThemeClearCache            \<comment> \<open>\<open>cd /var/www/html && rm -rf var/cache/prod/*\<close>\<close>
  | PluginRemoveTemp           \<comment> \<open>\<open>cd .../plugins && rm -rf temp_extract\<close>\<close>
  | PluginTestDir string       \<comment> \<open>\<open>test -d /var/www/html/docroot/plugins/DIR\<close>\<close>
  | PluginRemoveDir string     \<comment> \<open>\<open>rm -rf /var/www/html/docroot/plugins/DIR\<close>\<close>
  | PluginToolsCheck           \<comment> \<open>\<open>which curl && which unzip && which file\<close>\<close>
  | PluginDownload string "string option"
      \<comment> \<open>\<open>cd .../plugins && curl -L -o plugin.zip [-H "Authorization: Bearer TOKEN" ...] --connect-timeout 30 --max-time 60 --retry 2 "URL"\<close>\<close>
  | PluginFileType             \<comment> \<open>\<open>cd .../plugins && file plugin.zip\<close>\<close>
  | PluginRemoveZip            \<comment> \<open>\<open>cd .../plugins && rm -f plugin.zip\<close>\<close>
  | PluginListZip              \<comment> \<open>\<open>cd .../plugins && unzip -l plugin.zip\<close>\<close>
  | PluginExtractZipball string
      \<comment> \<open>\<open>mkdir -p temp_extract "DIR" && unzip -o plugin.zip -d temp_extract && rm plugin.zip && ... && rm -rf temp_extract\<close>\<close>
  | PluginTempStatus           \<comment> \<open>\<open>if [ -d temp_extract ]; then ... ls -la temp_extract; else ...; fi\<close>\<close>
  | PluginFinalCheck string    \<comment> \<open>\<open>ls -la DIR/ && find DIR -type f | wc -l && find DIR -type f | head -5\<close>\<close>
  | PluginExtractInto string   \<comment> \<open>\<open>mkdir -p "DIR" && unzip -o plugin.zip -d "DIR" && rm plugin.zip\<close>\<close>
  | PluginExtractHere          \<comment> \<open>\<open>unzip -o plugin.zip && rm plugin.zip\<close>\<close>
  | PluginListAll              \<comment> \<open>\<open>cd .../plugins && ls -la\<close>\<close>
  | PluginDetail string        \<comment> \<open>\<open>ls -la .../plugins/DIR/ && echo "File count:" && find .../plugins/DIR -type f | wc -l\<close>\<close>
  | PluginMainFileTest string  \<comment> \<open>\<open>test -f .../plugins/DIR/DIR.php\<close>\<close>
  | PluginListDir string       \<comment> \<open>\<open>ls -la .../plugins/DIR/\<close>\<close>
  | PluginChown string         \<comment> \<open>\<open>chown -R www-data:www-data .../plugins/DIR && chmod -R 755 .../plugins/DIR\<close>\<close>
  | PluginClearCache           \<comment> \<open>\<open>cd /var/www/html && rm -rf var/cache/prod/* var/cache/dev/*\<close>\<close>
  | PluginConsoleInstall       \<comment> \<open>\<open>cd /var/www/html && php bin/console mautic:plugins:install --force\<close>\<close>
  | PluginConsoleReload        \<comment> \<open>\<open>cd /var/www/html && php bin/console mautic:plugins:reload\<close>\<close>

datatype op =
    Docker dockerOp
  | File fileOp
  | Deploy deployOp
  | Package packageOp
  | Sleep nat                  \<comment> \<open>\<open>await new Promise(resolve => setTimeout(resolve, MS))\<close>\<close>

text \<open>
  The host answers an operation with a \<open>ProcessResult\<close>; the answer may depend on
  everything done to the host before, so a host is a function of the operations run so
  far (the trace) and of the operation. For a file primitive, \<open>success = False\<close> means
  that the primitive throws, with \<open>output'\<close> the message.
\<close>

type_synonym host = "op list \<Rightarrow> op \<Rightarrow> ProcessResult"

text \<open>
  Modelled from the spec: \<open>ProcessManager\<close> (\<open>scripts/process-manager.ts\<close>) is not
  among the sources. It is the spec's ProcessExecutor, which "runs an external command,
  captures stdout/stderr and exit code, optionally enforces a timeout, optionally treats
  non-zero exit as non-fatal". \<open>runShell\<close> is a call with \<open>{ ignoreError: true }\<close>, which
  returns the result whatever it is; \<open>runShellStrict\<close> is a call without it, which throws
  when the command fails.
\<close>

definition runShell :: "host \<Rightarrow> op \<Rightarrow> op list \<Rightarrow> ProcessResult \<times> op list" where
  "runShell sh c tr = (sh tr c, tr @ [c])"

definition runShellStrict :: "host \<Rightarrow> op \<Rightarrow> op list \<Rightarrow> (error + ProcessResult) \<times> op list" where
  "runShellStrict sh c tr =
     (let (result, tr1) = runShell sh c tr in
      (if success result then Inr result else Inl (Error (output' result)), tr1))"

text \<open>A timer: the host sees it, its answer is not used.\<close>

definition sleep :: "host \<Rightarrow> nat \<Rightarrow> op list \<Rightarrow> op list" where
  "sleep sh ms tr = snd (runShell sh (Sleep ms) tr)"


section \<open>scripts/docker-manager.ts\<close>

text \<open>An element of a destructured array: \<open>undefined\<close> past the end.\<close>

fun nthOpt :: "'a list \<Rightarrow> nat \<Rightarrow> 'a option" where
  "nthOpt [] n = None"
| "nthOpt (x # xs) 0 = Some x"
| "nthOpt (x # xs) (Suc n) = nthOpt xs n"

definition getContainerInfo :: "host \<Rightarrow> string \<Rightarrow> op list \<Rightarrow> ContainerInfo option \<times> op list" where
  "getContainerInfo sh containerName tr =
     (let (result, tr1) = runShell sh (Docker (DockerInspect containerName)) tr in
      if \<not> success result \<or> output' result = ''not_found'' then (None, tr1)
      else
        (let parts = split_on CHR '','' (output' result);
             health = nthOpt parts 3
         in (Some \<lparr> name = remove1 CHR ''/'' (orElse (nthOpt parts 0) []),
                     image = orElse (nthOpt parts 1) [],
                     status = orElse (nthOpt parts 2) [],
                     health = (if truthy health \<and> health \<noteq> Some ''<no value>'' then health else None) \<rparr>,
             tr1)))"

text \<open>The loop of \<open>listMauticContainers\<close> over the container names.\<close>

fun listContainers :: "host \<Rightarrow> string list \<Rightarrow> op list \<Rightarrow> ContainerInfo list \<times> op list" where
  "listContainers sh [] tr = ([], tr)"
| "listContainers sh (container # containers) tr =
     (let (info, tr1) = getContainerInfo sh container tr;
          (results, tr2) = listContainers sh containers tr1
      in (case info of None \<Rightarrow> (results, tr2) | Some i \<Rightarrow> (i # results, tr2)))"

definition listMauticContainers :: "host \<Rightarrow> op list \<Rightarrow> ContainerInfo list \<times> op list" where
  "listMauticContainers sh tr =
     listContainers sh [''mautibox_web'', ''mautibox_db'', ''mautibox_cron''] tr"

definition getCurrentMauticVersion :: "host \<Rightarrow> op list \<Rightarrow> string option \<times> op list" where
  "getCurrentMauticVersion sh tr =
     (let (webContainer, tr1) = getContainerInfo sh ''mautibox_web'' tr in
      case webContainer of
        None \<Rightarrow> (None, tr1)
      | Some c \<Rightarrow>
          (let imageTag = nthOpt (split_on CHR '':'' (image c)) 1 in
           (if truthy imageTag then imageTag else None, tr1)))"

definition pullImage :: "host \<Rightarrow> string \<Rightarrow> op list \<Rightarrow> bool \<times> op list" where
  "pullImage sh img tr =
     (let (result, tr1) = runShell sh (Docker (DockerPull img)) tr in (success result, tr1))"

text \<open>
  \<open>recreateContainers\<close>. Every command is run with \<open>ignoreError\<close>, so the \<open>catch\<close> of
  the source is never entered.
\<close>

definition recreateContainers :: "host \<Rightarrow> op list \<Rightarrow> bool \<times> op list" where
  "recreateContainers sh tr =
     (let (stopResult, tr1) = runShell sh (Docker ComposeDown) tr;
          (cleanResult, tr2) = runShell sh (Docker ComposeRm) tr1;
          (validateResult, tr3) = runShell sh (Docker ComposeConfig) tr2
      in
      if \<not> success validateResult then (False, tr3)
      else
        (let (result, tr4) = runShell sh (Docker ComposeUp) tr3;
             (immediateStatus, tr5) = runShell sh (Docker ComposePs) tr4;
             tr6 = (if includesStr ''Restarting'' (output' immediateStatus)
                    then snd (runShell sh (Docker (DockerLogs ''mautibox_db'' 100)) tr5)
                    else tr5);
             (statusCheck, tr7) = runShell sh (Docker ComposePs) tr6
         in
         if success statusCheck
            \<and> (includesStr ''Up '' (output' statusCheck) \<or> includesStr ''running'' (output' statusCheck))
         then (True, sleep sh 15000 tr7)
         else if success result then (True, tr7)
         else
           (let (detailedStatus, tr8) = runShell sh (Docker ComposePsAll) tr7;
                (healthStatus, tr9) = runShell sh (Docker ComposePsHealth) tr8;
                (allLogs, tr10) = runShell sh (Docker ComposeLogs) tr9
            in (False, tr10))))"

text \<open>
  \<open>info?.status === 'running'\<close> and \<open>!info.health || info.health === 'healthy'\<close>: the
  poll that ends the wait.
\<close>

definition isHealthy :: "ContainerInfo option \<Rightarrow> bool" where
  "isHealthy info =
     (case info of
        None \<Rightarrow> False
      | Some c \<Rightarrow> status c = ''running'' \<and> (\<not> truthy (health c) \<or> health c = Some ''healthy''))"

text \<open>
  The diagnostic dump of the database container (its recent logs, its process list, its
  data directory), taken at every second poll and at the last one.
\<close>

definition diagnostics :: "host \<Rightarrow> string \<Rightarrow> int \<Rightarrow> int \<Rightarrow> op list \<Rightarrow> op list" where
  "diagnostics sh containerName timeoutSeconds i tr =
     (if containerName = ''mautibox_db'' \<and> (i mod 30 = 0 \<or> i \<ge> timeoutSeconds - 15) then
        (let (logs, tr1) = runShell sh (Docker (DockerLogs containerName 15)) tr;
             (processCheck, tr2) = runShell sh (Docker (ExecPsMysql containerName)) tr1;
             (dataCheck, tr3) = runShell sh (Docker (ExecLsMysql containerName)) tr2
         in tr3)
      else tr)"

text \<open>
  The loop \<open>for (let i = 0; i < timeoutSeconds; i += 15)\<close> of \<open>waitForHealthy\<close>, from the
  value \<open>i\<close> of the counter.
\<close>

function waitLoop :: "host \<Rightarrow> string \<Rightarrow> int \<Rightarrow> int \<Rightarrow> op list \<Rightarrow> bool \<times> op list" where
  "waitLoop sh containerName timeoutSeconds i tr =
     (if i < timeoutSeconds then
        (let (info, tr1) = getContainerInfo sh containerName tr in
         if isHealthy info then (True, tr1)
         else waitLoop sh containerName timeoutSeconds (i + 15)
                (sleep sh 15000 (diagnostics sh containerName timeoutSeconds i tr1)))
      else (False, tr))"
  by pat_completeness auto
termination
  by (relation "measure (\<lambda>(sh, containerName, timeoutSeconds, i, tr). nat (timeoutSeconds - i))") auto

definition waitForHealthy :: "host \<Rightarrow> string \<Rightarrow> int \<Rightarrow> op list \<Rightarrow> bool \<times> op list" where
  "waitForHealthy sh containerName timeoutSeconds tr = waitLoop sh containerName timeoutSeconds 0 tr"

section \<open>scripts/mautic-deployer.ts: package sources\<close>

subsection \<open>The platform's URL parser\<close>

text \<open>
  \<open>new URL(s)\<close> is called only on a string that starts with \<open>https://github.com/\<close>, so
  the protocol is \<open>https:\<close>, the host is \<open>github.com\<close> and the constructor does not throw.
  The path name runs from the \<open>/\<close> after the host to the first \<open>?\<close> or \<open>#\<close>; the query
  runs from a \<open>?\<close> that ends the path to the first \<open>#\<close>. The parser's rewriting of
  unusual input (dot segments, backslashes, percent-encoding, \<open>+\<close> in a query value,
  tabs and newlines) is left out: the model is the parser on URLs made of letters,
  digits, \<open>- _ .\<close> and the separators \<open>/ ? & = :\<close>.
\<close>

definition urlPathname :: "string \<Rightarrow> string" where
  "urlPathname s =
     takeWhile (\<lambda>c. c \<noteq> CHR ''?'' \<and> c \<noteq> CHR ''#'') (drop (length ''https://github.com'') s)"

definition urlSearch :: "string \<Rightarrow> string" where
  "urlSearch s =
     (case dropWhile (\<lambda>c. c \<noteq> CHR ''?'' \<and> c \<noteq> CHR ''#'') (drop (length ''https://github.com'') s) of
        [] \<Rightarrow> []
      | c # rest \<Rightarrow> if c = CHR ''?'' then takeWhile (\<lambda>c. c \<noteq> CHR ''#'') rest else [])"

text \<open>
  \<open>url.searchParams\<close>: the query is cut at every \<open>&\<close>, empty pieces are dropped, and a
  piece is a name up to its first \<open>=\<close> and a value after it.
\<close>

definition searchParams :: "string \<Rightarrow> (string \<times> string) list" where
  "searchParams query =
     map (\<lambda>piece. (takeWhile (\<lambda>c. c \<noteq> CHR ''='') piece,
                   drop 1 (dropWhile (\<lambda>c. c \<noteq> CHR ''='') piece)))
         (filter (\<lambda>piece. piece \<noteq> []) (split_on CHR ''&'' query))"

text \<open>\<open>url.searchParams.get(name)\<close>: the value of the first pair with that name.\<close>

definition searchParamsGet :: "string \<Rightarrow> string \<Rightarrow> string option" where
  "searchParamsGet s key = map_of (searchParams (urlSearch s)) key"

subsection \<open>The archive pattern\<close>

text \<open>
  The regular expression
  \<open>/https:\/\/github\.com\/([^\/]+)\/([^\/]+)\/archive\/(?:refs\/heads\/)?(.+)\.zip/\<close>.
  A dot matches every character but a line terminator.
\<close>

definition isLineTerminator :: "char \<Rightarrow> bool" where
  "isLineTerminator c = (c = CHR 0x0A \<or> c = CHR 0x0D)"

text \<open>
  \<open>(.+)\.zip\<close> at the start of \<open>s\<close>, the group taking at most \<open>n\<close> characters: the group
  is greedy, so the longest candidate is tried first.
\<close>

fun greedyUpTo :: "nat \<Rightarrow> string \<Rightarrow> string option" where
  "greedyUpTo 0 s = None"
| "greedyUpTo (Suc n) s =
     (if startsWith ''.zip'' (drop (Suc n) s)
         \<and> list_all (\<lambda>c. \<not> isLineTerminator c) (take (Suc n) s)
      then Some (take (Suc n) s)
      else greedyUpTo n s)"

definition branchZip :: "string \<Rightarrow> string option" where
  "branchZip s = greedyUpTo (length s - length ''.zip'') s"

text \<open>
  The pattern at the start of \<open>s\<close>. A group \<open>[^\/]+\<close> is followed by a \<open>/\<close>, so it is the
  whole run of characters up to the next \<open>/\<close>. The optional \<open>refs/heads/\<close> is taken when
  the rest of the pattern then matches, and left to the branch group otherwise.
\<close>

definition matchArchiveAt :: "string \<Rightarrow> (string \<times> string \<times> string) option" where
  "matchArchiveAt s =
     (if startsWith ''https://github.com/'' s then
        (let r1 = drop (length ''https://github.com/'') s;
             owner = takeWhile (\<lambda>c. c \<noteq> CHR ''/'') r1;
             r2 = drop 1 (dropWhile (\<lambda>c. c \<noteq> CHR ''/'') r1);
             repo = takeWhile (\<lambda>c. c \<noteq> CHR ''/'') r2;
             r3 = dropWhile (\<lambda>c. c \<noteq> CHR ''/'') r2
         in
         if owner = [] \<or> repo = [] \<or> \<not> startsWith ''/archive/'' r3 then None
         else
           (let r4 = drop (length ''/archive/'') r3;
                inner = (if startsWith ''refs/heads/'' r4
                         then branchZip (drop (length ''refs/heads/'') r4)
                         else None)
            in
            case inner of
              Some branch \<Rightarrow> Some (owner, repo, branch)
            | None \<Rightarrow>
                (case branchZip r4 of
                   Some branch \<Rightarrow> Some (owner, repo, branch)
                 | None \<Rightarrow> None)))
      else None)"

text \<open>\<open>cleanUrl.match(...)\<close>: the pattern is not anchored, the leftmost match wins.\<close>

fun matchArchive :: "string \<Rightarrow> (string \<times> string \<times> string) option" where
  "matchArchive [] = None"
| "matchArchive (c # cs) =
     (case matchArchiveAt (c # cs) of
        Some m \<Rightarrow> Some m
      | None \<Rightarrow> matchArchive cs)"

subsection \<open>Parsing a package source\<close>

text \<open>
  The block that opens \<open>installTheme\<close>, \<open>installPlugin\<close> and \<open>downloadPlugin\<close> (the three
  copies are the same text): it gives \<open>cleanUrl\<close>, \<open>directory\<close> and \<open>token\<close>.
\<close>

definition parsePackageUrl :: "string \<Rightarrow> string \<times> string \<times> string" where
  "parsePackageUrl pluginUrl =
     (if startsWith ''https://github.com/'' pluginUrl \<and> includesStr ''?'' pluginUrl then
        (let cleanUrl = ''https:'' @ ''//'' @ ''github.com'' @ urlPathname pluginUrl;
             directory = orElse (searchParamsGet pluginUrl ''directory'') [];
             token = orElse (searchParamsGet pluginUrl ''token'') []
         in
         if token \<noteq> [] \<and> includesStr ''/archive/'' cleanUrl then
           (case matchArchive cleanUrl of
              Some (owner, repo, branch) \<Rightarrow>
                (''https://api.github.com/repos/'' @ owner @ ''/'' @ repo @ ''/zipball/'' @ branch,
                 directory, token)
            | None \<Rightarrow> (cleanUrl, directory, token))
         else (cleanUrl, directory, token))
      else (pluginUrl, [], []))"

text \<open>\<open>token || this.config.githubToken\<close>.\<close>

definition authTokenOf :: "DeploymentConfig \<Rightarrow> string \<Rightarrow> string option" where
  "authTokenOf cfg token = (if token \<noteq> [] then Some token else githubToken cfg)"

text \<open>
  The token a download is made with: \<open>authToken && cleanUrl.includes('github.com')\<close>
  chooses the \<open>curl\<close> command with the \<open>Authorization\<close> header.
\<close>

definition downloadAuth :: "DeploymentConfig \<Rightarrow> string \<Rightarrow> string \<Rightarrow> string option" where
  "downloadAuth cfg token cleanUrl =
     (if truthy (authTokenOf cfg token) \<and> includesStr ''github.com'' cleanUrl
      then authTokenOf cfg token else None)"

section \<open>scripts/mautic-deployer.ts: themes and plugins\<close>

text \<open>
  \<open>installTheme\<close>. Every command is run with \<open>ignoreError\<close> and no result is turned into
  an exception, so the \<open>catch\<close> that rethrows is never entered. The download and the
  extraction are one shell command, \<open>curl ... && unzip ... && rm theme.zip\<close>, whose result
  is not read.
\<close>

definition installTheme :: "DeploymentConfig \<Rightarrow> host \<Rightarrow> string \<Rightarrow> op list \<Rightarrow> (error + unit) \<times> op list" where
  "installTheme cfg sh themeUrl tr =
     (let (cleanUrl, directory, token) = parsePackageUrl themeUrl;
          tr1 = (if directory \<noteq> [] then
                   (let (checkExisting, t1) = runShell sh (Package (ThemeTestDir directory)) tr in
                    if success checkExisting
                    then snd (runShell sh (Package (ThemeRemoveDir directory)) t1)
                    else t1)
                 else tr);
          tr2 = snd (runShell sh
                  (Package (ThemeDownloadAndExtract cleanUrl (downloadAuth cfg token cleanUrl) directory)) tr1);
          tr3 = (if directory \<noteq> [] then snd (runShell sh (Package (ThemeChown directory)) tr2) else tr2);
          tr4 = snd (runShell sh (Package ThemeClearCache) tr3)
      in (Inr (), tr4))"

text \<open>The upgrade step of \<open>installPlugin\<close>: an existing plugin directory is removed.\<close>

definition removeExistingPlugin :: "host \<Rightarrow> string \<Rightarrow> op list \<Rightarrow> op list" where
  "removeExistingPlugin sh directory tr =
     (if directory \<noteq> [] then
        (let (checkExisting, t1) = runShell sh (Package (PluginTestDir directory)) tr in
         if success checkExisting
         then snd (runShell sh (Package (PluginRemoveDir directory)) t1)
         else t1)
      else tr)"

text \<open>The extraction step of \<open>installPlugin\<close>; it gives \<open>extractResult\<close>.\<close>

definition extractPlugin :: "host \<Rightarrow> string \<Rightarrow> string \<Rightarrow> op list \<Rightarrow> ProcessResult \<times> op list" where
  "extractPlugin sh cleanUrl directory tr =
     (if directory \<noteq> [] then
        (if includesStr ''github.com'' cleanUrl then
           (let (zipContents, t1) = runShell sh (Package PluginListZip) tr;
                (extractResult, t2) = runShell sh (Package (PluginExtractZipball directory)) t1;
                t3 = (if \<not> success extractResult
                      then snd (runShell sh (Package PluginTempStatus) t2)
                      else snd (runShell sh (Package (PluginFinalCheck directory)) t2))
            in (extractResult, t3))
         else runShell sh (Package (PluginExtractInto directory)) tr)
      else runShell sh (Package PluginExtractHere) tr)"

text \<open>
  What \<open>installPlugin\<close> does after a successful extraction: listings, ownership, and the
  registration of the plugin between two cache clears. No failure here is an exception.
\<close>

definition registerPlugin :: "host \<Rightarrow> string \<Rightarrow> op list \<Rightarrow> op list" where
  "registerPlugin sh directory tr =
     (let t1 = snd (runShell sh (Package PluginListAll) tr);
          t2 = (if directory \<noteq> [] then snd (runShell sh (Package (PluginDetail directory)) t1) else t1);
          t3 = (if directory \<noteq> [] then
                  (let (pluginFileCheck, u1) = runShell sh (Package (PluginMainFileTest directory)) t2;
                       u2 = (if success pluginFileCheck then u1
                             else snd (runShell sh (Package (PluginListDir directory)) u1));
                       u3 = snd (runShell sh (Package (PluginChown directory)) u2)
                   in snd (runShell sh (Package (PluginListDir directory)) u3))
                else t2);
          t4 = snd (runShell sh (Package PluginClearCache) t3);
          (consoleResult, t5) = runShell sh (Package PluginConsoleInstall) t4;
          t6 = (if \<not> success consoleResult
                then snd (runShell sh (Package PluginConsoleReload) t5)
                else t5)
      in snd (runShell sh (Package PluginClearCache) t6))"

text \<open>\<open>installPlugin\<close>. An exception is caught, logged and thrown again unchanged.\<close>

definition installPlugin :: "DeploymentConfig \<Rightarrow> host \<Rightarrow> string \<Rightarrow> op list \<Rightarrow> (error + unit) \<times> op list" where
  "installPlugin cfg sh pluginUrl tr =
     (let (cleanUrl, directory, token) = parsePackageUrl pluginUrl;
          tr1 = snd (runShell sh (Package PluginRemoveTemp) tr);
          tr2 = removeExistingPlugin sh directory tr1;
          tr3 = snd (runShell sh (Package PluginToolsCheck) tr2);
          (downloadResult, tr4) =
            runShell sh (Package (PluginDownload cleanUrl (downloadAuth cfg token cleanUrl))) tr3
      in
      if \<not> success downloadResult then
        (Inl (Error (''Failed to download plugin: '' @ output' downloadResult)), tr4)
      else
        (let (validateResult, tr5) = runShell sh (Package PluginFileType) tr4 in
         if success validateResult \<and> \<not> includesStr ''Zip archive data'' (output' validateResult) then
           (Inl (Error ''Downloaded file is not a valid ZIP archive''),
            snd (runShell sh (Package PluginRemoveZip) tr5))
         else
           (let (extractResult, tr6) = extractPlugin sh cleanUrl directory tr5 in
            if \<not> success extractResult then
              (Inl (Error (''Failed to extract plugin: '' @ output' extractResult)), tr6)
            else (Inr (), registerPlugin sh directory tr6))))"

text \<open>\<open>list.split('\n').map(t => t.trim()).filter(Boolean)\<close>.\<close>

definition packageItems :: "string \<Rightarrow> string list" where
  "packageItems spec = filter (\<lambda>t. t \<noteq> []) (map trim (split_on CHR 0x0A spec))"

text \<open>
  The state of one \<open>for\<close> loop of \<open>installThemesAndPluginsRuntime\<close>: the two counters, and
  the lines logged for the items (\<open>installed successfully\<close> is \<open>True\<close>,
  \<open>installation failed\<close> is \<open>False\<close>).
\<close>

record installSummary =
  successCount :: nat
  failureCount :: nat
  reported :: "(string \<times> bool) list"

definition noItems :: installSummary where
  "noItems = \<lparr> successCount = 0, failureCount = 0, reported = [] \<rparr>"

text \<open>
  The loop \<open>for (const item of items) { try { await install(item); ... } catch ... }\<close>; the
  loop over the themes and the loop over the plugins differ in the installer only.
\<close>

fun installEach ::
  "(host \<Rightarrow> string \<Rightarrow> op list \<Rightarrow> (error + unit) \<times> op list) \<Rightarrow> host \<Rightarrow> string list
     \<Rightarrow> installSummary \<Rightarrow> op list \<Rightarrow> installSummary \<times> op list" where
  "installEach install sh [] summary tr = (summary, tr)"
| "installEach install sh (item # items) summary tr =
     (case install sh item tr of
        (Inr u, tr1) \<Rightarrow>
          installEach install sh items
            (summary\<lparr> successCount := Suc (successCount summary),
                      reported := reported summary @ [(item, True)] \<rparr>) tr1
      | (Inl e, tr1) \<Rightarrow>
          installEach install sh items
            (summary\<lparr> failureCount := Suc (failureCount summary),
                      reported := reported summary @ [(item, False)] \<rparr>) tr1)"

text \<open>
  \<open>installThemesAndPluginsRuntime\<close>; it gives the summary of the themes and the summary
  of the plugins.
\<close>

definition installThemesAndPluginsRuntime ::
  "DeploymentConfig \<Rightarrow> host \<Rightarrow> op list \<Rightarrow> (installSummary \<times> installSummary) \<times> op list" where
  "installThemesAndPluginsRuntime cfg sh tr =
     (let (themeSummary, tr1) =
            (if truthy (mauticThemes cfg)
             then installEach (installTheme cfg) sh (packageItems (orElse (mauticThemes cfg) [])) noItems tr
             else (noItems, tr));
          (pluginSummary, tr2) =
            (if truthy (mauticPlugins cfg)
             then installEach (installPlugin cfg) sh (packageItems (orElse (mauticPlugins cfg) [])) noItems tr1
             else (noItems, tr1))
      in ((themeSummary, pluginSummary), tr2))"

text \<open>
  \<open>installThemesAndPlugins\<close>: \<open>shouldUseCustomImageApproach\<close> returns \<open>false\<close>, so the
  runtime installation is the one that runs (\<open>buildCustomMauticImage\<close> is never called).
\<close>

definition installThemesAndPlugins :: "DeploymentConfig \<Rightarrow> host \<Rightarrow> op list \<Rightarrow> op list" where
  "installThemesAndPlugins cfg sh tr = snd (installThemesAndPluginsRuntime cfg sh tr)"

section \<open>scripts/mautic-deployer.ts: state inspection\<close>






definition needsUpdate :: "DeploymentConfig \<Rightarrow> host \<Rightarrow> op list \<Rightarrow> bool \<times> op list" where
  "needsUpdate cfg sh tr =
     (let (currentVersion, tr1) = getCurrentMauticVersion sh tr;
          targetVersion = mauticVersion cfg
      in case currentVersion of
           None \<Rightarrow> (True, tr1)
         | Some v \<Rightarrow> if v \<noteq> targetVersion then (True, tr1) else (False, tr1))"


section \<open>scripts/mautic-deployer.ts: the update\<close>

text \<open>
  \<open>this.config.mauticVersion.endsWith('-apache') ? this.config.mauticVersion :
  `${this.config.mauticVersion}-apache`\<close>
\<close>

definition baseVersion :: "DeploymentConfig \<Rightarrow> string" where
  "baseVersion cfg =
     (if endsWith ''-apache'' (mauticVersion cfg) then mauticVersion cfg
      else mauticVersion cfg @ ''-apache'')"

text \<open>
  The pattern \<open>/mautic\/mautic:[^-]+-apache/\<close> at the start of \<open>s\<close>: the length of the
  match. The run \<open>[^-]+\<close> is followed by a \<open>-\<close>, so it is the whole run up to the next \<open>-\<close>.
\<close>

definition matchImageAt :: "string \<Rightarrow> nat option" where
  "matchImageAt s =
     (if startsWith ''mautic/mautic:'' s then
        (let r = drop (length ''mautic/mautic:'') s;
             run = takeWhile (\<lambda>c. c \<noteq> CHR ''-'') r
         in if run \<noteq> [] \<and> startsWith ''-apache'' (drop (length run) r)
            then Some (length ''mautic/mautic:'' + length run + length ''-apache'')
            else None)
      else None)"

text \<open>
  \<open>content.replace(/mautic\/mautic:[^-]+-apache/g, replacement)\<close>, for a replacement
  without \<open>$\<close>. The first argument counts the characters of a match still to be skipped.
\<close>

fun replaceImage :: "nat \<Rightarrow> string \<Rightarrow> string \<Rightarrow> string" where
  "replaceImage k replacement [] = []"
| "replaceImage 0 replacement (c # cs) =
     (case matchImageAt (c # cs) of
        Some n \<Rightarrow> replacement @ replaceImage (n - 1) replacement cs
      | None \<Rightarrow> c # replaceImage 0 replacement cs)"
| "replaceImage (Suc k) replacement (c # cs) = replaceImage k replacement cs"

definition updateDockerComposeVersion ::
  "DeploymentConfig \<Rightarrow> host \<Rightarrow> op list \<Rightarrow> (error + unit) \<times> op list" where
  "updateDockerComposeVersion cfg sh tr =
     (let (composeContent, tr1) = runShell sh (File (ReadTextFile ''docker-compose.yml'')) tr in
      if \<not> success composeContent then
        (Inl (Error (''Failed to update docker-compose.yml: '' @ output' composeContent)), tr1)
      else
        (let updatedContent =
               replaceImage 0 (''mautic/mautic:'' @ baseVersion cfg) (output' composeContent);
             (written, tr2) =
               runShell sh (File (WriteTextFile ''docker-compose.yml'' updatedContent)) tr1
         in if \<not> success written then
              (Inl (Error (''Failed to update docker-compose.yml: '' @ output' written)), tr2)
            else (Inr (), tr2)))"

text \<open>\<open>clearCache\<close>: a failure of the command is caught and logged.\<close>

definition clearCache :: "host \<Rightarrow> op list \<Rightarrow> op list" where
  "clearCache sh tr = snd (runShell sh (Deploy ClearCache) tr)"

text \<open>
  \<open>applyWhiteLabeling\<close>: without the directory \<open>/var/www/templates/customisation\<close> nothing
  is done; every exception is caught and logged.
\<close>

definition applyWhiteLabeling :: "host \<Rightarrow> op list \<Rightarrow> op list" where
  "applyWhiteLabeling sh tr =
     (let (found, tr1) = runShell sh (File (Stat ''/var/www/templates/customisation'')) tr in
      if success found then snd (runShell sh (Deploy CopyCustomisation) tr1) else tr1)"

text \<open>\<open>performUpdate\<close>: \<open>false\<close> is returned where the source throws into its \<open>catch\<close>.\<close>

definition performUpdate :: "DeploymentConfig \<Rightarrow> host \<Rightarrow> op list \<Rightarrow> bool \<times> op list" where
  "performUpdate cfg sh tr =
     (let imageName = ''mautic/mautic:'' @ baseVersion cfg;
          (pullSuccess, tr1) = pullImage sh imageName tr
      in
      if \<not> pullSuccess then (False, tr1)
      else
        (case updateDockerComposeVersion cfg sh tr1 of
           (Inl e, tr2) \<Rightarrow> (False, tr2)
         | (Inr u, tr2) \<Rightarrow>
             (let (recreateSuccess, tr3) = recreateContainers sh tr2 in
              if \<not> recreateSuccess then (False, tr3)
              else
                (let (healthyWeb, tr4) = waitForHealthy sh ''mautibox_web'' 300 tr3;
                     (healthyDb, tr5) = waitForHealthy sh ''mautibox_db'' 300 tr4
                 in
                 if \<not> healthyWeb \<or> \<not> healthyDb then (False, tr5)
                 else (True, clearCache sh (applyWhiteLabeling sh (clearCache sh tr5)))))))"


section \<open>scripts/mautic-deployer.ts: the installation\<close>

text \<open>Sequencing of steps that may throw: the first exception ends the sequence.\<close>

definition andThen ::
  "(error + 'a) \<times> op list \<Rightarrow> ('a \<Rightarrow> op list \<Rightarrow> (error + 'b) \<times> op list) \<Rightarrow> (error + 'b) \<times> op list" where
  "andThen m f = (case m of (Inl e, tr) \<Rightarrow> (Inl e, tr) | (Inr x, tr) \<Rightarrow> f x tr)"

text \<open>A step that cannot throw, as a step of such a sequence.\<close>

definition always :: "op list \<Rightarrow> (error + unit) \<times> op list" where
  "always tr = (Inr (), tr)"

definition singleQuoted :: "string \<Rightarrow> string" where
  "singleQuoted s = [CHR 0x27] @ s @ [CHR 0x27]"

definition doubleQuoted :: "string \<Rightarrow> string" where
  "doubleQuoted s = [CHR 0x22] @ s @ [CHR 0x22]"

text \<open>The template literal of \<open>createEnvironmentFile\<close>, trimmed.\<close>

definition envContent :: "DeploymentConfig \<Rightarrow> string" where
  "envContent cfg = trim (joinWith [CHR 0x0A]
     [[],
      ''# Database Configuration'',
      ''MAUTIC_DB_HOST=mysql'',
      ''MAUTIC_DB_USER='' @ mysqlUser cfg,
      ''MAUTIC_DB_PASSWORD='' @ mysqlPassword cfg,
      ''MAUTIC_DB_DATABASE='' @ mysqlDatabase cfg,
      ''MAUTIC_DB_PORT=3306'',
      [],
      ''# Mautic Configuration'',
      ''MAUTIC_TRUSTED_PROXIES='' @ singleQuoted (''['' @ doubleQuoted ''127.0.0.1'' @ '','' @ doubleQuoted ''remote_addr''
         @ '','' @ doubleQuoted ''172.16.0.0/12'' @ '','' @ doubleQuoted ''172.17.0.0/16'' @ '']''),
      ''MAUTIC_RUN_CRON_JOBS=true'',
      ''MAUTIC_LOCALE='' @ orElse (mauticLocale cfg) ''ru'',
      ''MAUTIC_DEFAULT_TIMEZONE='' @ orElse (Some (defaultTimezone cfg)) ''Europe/Moscow'',
      ''MAUTIC_TRANSLATION_LIST_URL='' @ singleQuoted ''https://language-packs.mautibox.ru/manifest.json'',
      ''MAUTIC_TRANSLATION_FETCH_URL='' @ singleQuoted ''https://language-packs.mautibox.ru/'',
      ''MAUTIC_STATS_UPDATE_URL='' @ singleQuoted ''https://updates.mautibox.ru/stats/send'',
      ''MAUTIC_INSTALL_SOURCE=MautiBox'',
      ''MAUTIC_SYSTEM_UPDATE_URL='' @ singleQuoted ''https://api.github.com/repos/mautibox/mautibox/releases'',
      ''MAUTIC_API_ENABLED=1'',
      [],
      ''# Admin Configuration'',
      ''MAUTIC_ADMIN_EMAIL='' @ emailAddress cfg,
      ''MAUTIC_ADMIN_PASSWORD='' @ mauticPassword cfg,
      ''MAUTIC_ADMIN_FIRSTNAME=Admin'',
      ''MAUTIC_ADMIN_LASTNAME=MautiBox'',
      [],
      ''# Docker Configuration - will be overridden per container'',
      ''DOCKER_MAUTIC_ROLE=mautibox_web'',
      [],
      ''# Installation Configuration'',
      ''MAUTIC_DB_PREFIX='',
      ''MAUTIC_INSTALL_FORCE=true'',
      [],
      ''# MySQL Configuration (for docker-compose environment variables)'',
      ''MYSQL_ROOT_PASSWORD='' @ mysqlRootPassword cfg,
      ''MYSQL_DATABASE='' @ mysqlDatabase cfg,
      ''MYSQL_USER='' @ mysqlUser cfg,
      ''MYSQL_PASSWORD='' @ mysqlPassword cfg,
      [],
      ''# Deployment Configuration'',
      ''MAUTIC_VERSION='' @ baseVersion cfg,
      ''PORT='' @ port cfg,
      []])"

definition createEnvironmentFile :: "DeploymentConfig \<Rightarrow> host \<Rightarrow> op list \<Rightarrow> (error + unit) \<times> op list" where
  "createEnvironmentFile cfg sh tr =
     andThen (runShellStrict sh (File (WriteTextFile ''.mautic_env'' (envContent cfg))) tr) (\<lambda>written tr1.
     andThen (runShellStrict sh (File (Chmod ''.mautic_env'')) tr1) (\<lambda>changed tr2.
     always tr2))"

definition createDockerCompose :: "host \<Rightarrow> op list \<Rightarrow> (error + unit) \<times> op list" where
  "createDockerCompose sh tr =
     (let (templateExists, tr1) = runShell sh (Deploy TestComposeFile) tr in
      if \<not> success templateExists then
        (Inl (Error (''Failed to prepare docker-compose.yml: ''
                     @ ''docker-compose.yml template not found. It should be copied by deploy.sh.'')), tr1)
      else (Inr (), tr1))"

definition installLanguagePack :: "DeploymentConfig \<Rightarrow> host \<Rightarrow> op list \<Rightarrow> (error + unit) \<times> op list" where
  "installLanguagePack cfg sh tr =
     (if \<not> truthy (mauticLanguagePackUrl cfg) then (Inr (), tr)
      else
        (let (result, tr1) =
               runShell sh (Deploy (LanguagePackInstall (orElse (mauticLanguagePackUrl cfg) []))) tr
         in if \<not> success result then
              (Inl (Error ''Failed to install language pack. See output above for details.''), tr1)
            else (Inr (), tr1)))"

definition siteUrl :: "DeploymentConfig \<Rightarrow> string" where
  "siteUrl cfg =
     (if truthy (domainName cfg) then ''https://'' @ orElse (domainName cfg) []
      else ''http://'' @ ipAddress cfg @ '':'' @ port cfg)"

text \<open>
  \<open>runMauticInstallation\<close>. The database test is in a \<open>try\<close> of its own that only logs;
  the \<open>--help\<close> probe and the installation command are strict calls.
\<close>

definition runMauticInstallation :: "DeploymentConfig \<Rightarrow> host \<Rightarrow> op list \<Rightarrow> (error + unit) \<times> op list" where
  "runMauticInstallation cfg sh tr =
     (let tr1 = snd (runShell sh (Deploy DbConnectionTest) tr);
          (helpResult, tr2) = runShell sh (Deploy InstallHelp) tr1
      in
      if \<not> success helpResult then
        (Inl (Error (''Mautic installation failed: '' @ ''mautic:install command not available or hanging'')), tr2)
      else
        (let tr3 = snd (runShell sh (Deploy SyncMetadataStorage) tr2);
             (installResult, tr4) =
               runShell sh (Deploy (MauticInstall (siteUrl cfg) (emailAddress cfg) (mauticPassword cfg))) tr3
         in if success installResult then (Inr (), tr4)
            else (Inl (Error (''Mautic installation failed: '' @ ''Installation failed: ''
                             @ output' installResult)), tr4)))"

text \<open>One of the two halves of \<open>fixMediaHtaccess\<close>, for the directory \<open>images\<close> or \<open>files\<close>.\<close>

definition fixHtaccess :: "host \<Rightarrow> string \<Rightarrow> op list \<Rightarrow> op list" where
  "fixHtaccess sh dir tr =
     (let (checkHtaccess, tr1) = runShell sh (Deploy (CatHtaccess dir)) tr in
      if success checkHtaccess \<and> includesStr ''deny from all'' (output' checkHtaccess)
      then snd (runShell sh (Deploy (FixHtaccess dir)) tr1)
      else tr1)"

definition fixMediaHtaccess :: "host \<Rightarrow> op list \<Rightarrow> op list" where
  "fixMediaHtaccess sh tr = fixHtaccess sh ''files'' (fixHtaccess sh ''images'' tr)"

text \<open>The body of the \<open>try\<close> of \<open>performInstallation\<close>.\<close>

definition installationSteps :: "DeploymentConfig \<Rightarrow> host \<Rightarrow> op list \<Rightarrow> (error + unit) \<times> op list" where
  "installationSteps cfg sh tr =
     andThen (runShellStrict sh (Deploy MkdirData) tr) (\<lambda>made tr1.
     andThen (runShellStrict sh (Deploy ChmodData) tr1) (\<lambda>changed tr2.
     andThen (createEnvironmentFile cfg sh tr2) (\<lambda>u tr3.
     let (envCheckResult, tr4) = runShell sh (Deploy LsEnvFile) tr3;
         tr5 = (if success envCheckResult then snd (runShell sh (Deploy HeadEnvFile) tr4) else tr4)
     in
     andThen (createDockerCompose sh tr5) (\<lambda>u tr6.
     let (startSuccess, tr7) = recreateContainers sh tr6 in
     if \<not> startSuccess then
       (let tr8 = snd (runShell sh (Deploy HeadComposeFile) tr7);
            tr9 = snd (runShell sh (Deploy DockerPsAll) tr8)
        in (Inl (Error ''Failed to start containers''), tr9))
     else
       (let (initialContainers, tr8) = listMauticContainers sh tr7;
            tr9 = sleep sh 10000 tr8;
            tr10 = snd (runShell sh (Docker (DockerLogs ''mautibox_db'' 20)) tr9);
            tr11 = snd (waitForHealthy sh ''mautibox_db'' 180 tr10);
            tr12 = snd (waitForHealthy sh ''mautibox_web'' 300 tr11)
        in
        andThen (if truthy (mauticLanguagePackUrl cfg) \<and> truthy (mauticLocale cfg)
                 then installLanguagePack cfg sh tr12 else always tr12) (\<lambda>u tr13.
        andThen (runMauticInstallation cfg sh tr13) (\<lambda>u tr14.
        let tr15 = clearCache sh tr14;
            tr16 = fixMediaHtaccess sh tr15;
            tr17 = (if truthy (mauticThemes cfg) \<or> truthy (mauticPlugins cfg)
                    then clearCache sh (installThemesAndPlugins cfg sh tr16)
                    else tr16);
            tr18 = applyWhiteLabeling sh tr17
        in always (clearCache sh tr18))))))))"

text \<open>\<open>performInstallation\<close>: the \<open>catch\<close> logs the error and returns \<open>false\<close>.\<close>

definition performInstallation :: "DeploymentConfig \<Rightarrow> host \<Rightarrow> op list \<Rightarrow> bool \<times> op list" where
  "performInstallation cfg sh tr =
     (case installationSteps cfg sh tr of
        (Inl e, tr1) \<Rightarrow> (False, tr1)
      | (Inr u, tr1) \<Rightarrow> (True, tr1))"

section \<open>scripts/ssl-manager.ts\<close>


record nginxHost =
  written :: "string \<Rightarrow> string option"
  renameWorks :: bool
  linkResult :: ProcessResult
  testResult :: ProcessResult
  reloadResult :: ProcessResult






text \<open>
  What \<open>generateCertificate\<close> meets on the host: the results of \<open>certbot --nginx\<close> and of
  \<open>certbot certificates -d DOMAIN\<close>, the two readings of the configuration file after
  certbot has run (\<open>None\<close> when the reading throws), and whether \<open>Deno.stat\<close> succeeds.
\<close>

record certHost =
  certbotResult :: ProcessResult
  certCheckResult :: ProcessResult
  finalConfig :: "string option"
  statWorks :: bool
  finalRecheck :: "string option"

definition generateCertificate :: "DeploymentConfig \<Rightarrow> certHost \<Rightarrow> bool" where
  "generateCertificate cfg h =
     (if \<not> success (certbotResult h) then
        (if success (certCheckResult h) \<and> truthy (domainName cfg)
            \<and> includesStr (orElse (domainName cfg) []) (output' (certCheckResult h))
         then True
         else False)
      else
        (case finalConfig h of
           None \<Rightarrow> False
         | Some config \<Rightarrow>
             if \<not> endsWith ''}'' (trimEnd config) then False
             else if \<not> statWorks h then False
             else
               (case finalRecheck h of
                  None \<Rightarrow> False
                | Some recheck \<Rightarrow>
                    if length recheck = 0 then False
                    else if \<not> endsWith ''}'' (trimEnd recheck) then False
                    else True)))"


section \<open>Example inputs\<close>

subsection \<open>Environment files\<close>

text \<open>A \<open>deploy.env\<close> with a comment, a blank line and a value for every required key.\<close>

definition deployEnvComplete :: string where
  "deployEnvComplete = joinWith [CHR 0x0A]
     [''# deployment'', [], ''EMAIL_ADDRESS=a@b.c'', ''MAUTIC_PASSWORD=p=1'',
      ''IP_ADDRESS=10.0.0.1'', ''PORT=8001'', ''MAUTIC_VERSION=6.0.5-apache'',
      ''MYSQL_DATABASE=m'', ''MYSQL_USER=u'', ''MYSQL_PASSWORD=q'', ''MYSQL_ROOT_PASSWORD=r'']"


section \<open>Notions used in the statements\<close>

subsection \<open>Traces\<close>

text \<open>One trace continues another.\<close>

definition grows :: "op list \<Rightarrow> op list \<Rightarrow> bool" where
  "grows tr tr' = (\<exists>ys. tr' = tr @ ys)"

text \<open>The time spent in timers, in milliseconds.\<close>

fun sleepTime :: "op list \<Rightarrow> nat" where
  "sleepTime [] = 0"
| "sleepTime (Sleep ms # tr) = ms + sleepTime tr"
| "sleepTime (c # tr) = sleepTime tr"

subsection \<open>The rounds of a health wait\<close>

text \<open>
  The trace after \<open>k\<close> rounds of the loop of \<open>waitForHealthy\<close> in which the poll did not
  end the wait, from the value \<open>i\<close> of the counter: a round is the poll, the log or the
  diagnostic dump, and the timer of 15 seconds.
\<close>

primrec roundsFrom :: "host \<Rightarrow> string \<Rightarrow> int \<Rightarrow> int \<Rightarrow> nat \<Rightarrow> op list \<Rightarrow> op list" where
  "roundsFrom sh containerName timeoutSeconds i 0 tr = tr"
| "roundsFrom sh containerName timeoutSeconds i (Suc k) tr =
     roundsFrom sh containerName timeoutSeconds (i + 15) k
       (sleep sh 15000 (diagnostics sh containerName timeoutSeconds i
          (snd (getContainerInfo sh containerName tr))))"

text \<open>What the poll of round \<open>k\<close> observes, when no earlier poll ended the wait.\<close>

definition pollAt :: "host \<Rightarrow> string \<Rightarrow> int \<Rightarrow> int \<Rightarrow> nat \<Rightarrow> op list \<Rightarrow> ContainerInfo option" where
  "pollAt sh containerName timeoutSeconds i k tr =
     fst (getContainerInfo sh containerName (roundsFrom sh containerName timeoutSeconds i k tr))"

text \<open>The number of rounds the loop has for a timeout: the timeout over 15, rounded up.\<close>

definition polls :: "int \<Rightarrow> nat" where
  "polls timeoutSeconds = nat ((timeoutSeconds + 14) div 15)"

subsection \<open>Package items\<close>

text \<open>The download command that \<open>installPlugin\<close> runs for an item.\<close>

definition pluginDownload :: "DeploymentConfig \<Rightarrow> string \<Rightarrow> op" where
  "pluginDownload cfg pluginUrl =
     (let (cleanUrl, directory, token) = parsePackageUrl pluginUrl in
      Package (PluginDownload cleanUrl (downloadAuth cfg token cleanUrl)))"

text \<open>The download-and-extract command that \<open>installTheme\<close> runs for an item.\<close>

definition themeDownload :: "DeploymentConfig \<Rightarrow> string \<Rightarrow> op" where
  "themeDownload cfg themeUrl =
     (let (cleanUrl, directory, token) = parsePackageUrl themeUrl in
      Package (ThemeDownloadAndExtract cleanUrl (downloadAuth cfg token cleanUrl) directory))"

text \<open>
  Whether each call of the installer in the loop returns (\<open>True\<close>) or throws (\<open>False\<close>),
  the calls being made one after the other from the trace \<open>tr\<close>.
\<close>

fun outcomes ::
  "(host \<Rightarrow> string \<Rightarrow> op list \<Rightarrow> (error + unit) \<times> op list) \<Rightarrow> host \<Rightarrow> string list
     \<Rightarrow> op list \<Rightarrow> bool list" where
  "outcomes install sh [] tr = []"
| "outcomes install sh (item # items) tr =
     (case install sh item tr of
        (Inr u, tr1) \<Rightarrow> True # outcomes install sh items tr1
      | (Inl e, tr1) \<Rightarrow> False # outcomes install sh items tr1)"

text \<open>The counters of a summary agree with its lines.\<close>

definition counted :: "installSummary \<Rightarrow> bool" where
  "counted s = (successCount s = length (filter snd (reported s))
                \<and> failureCount s = length (filter (\<lambda>r. \<not> snd r) (reported s)))"

subsection \<open>Plain URL text\<close>




subsection \<open>Hosts and configurations\<close>

definition ok :: "string \<Rightarrow> ProcessResult" where
  "ok out = \<lparr> success = True, output' = out, exitCode = 0 \<rparr>"

definition failed :: "string \<Rightarrow> ProcessResult" where
  "failed out = \<lparr> success = False, output' = out, exitCode = 1 \<rparr>"

definition exampleConfig :: DeploymentConfig where
  "exampleConfig =
     \<lparr> emailAddress = ''admin@example.com'', mauticPassword = ''secret'', ipAddress = ''10.0.0.1'',
       port = ''8001'', mauticVersion = ''6.0.5'', mauticThemes = None, mauticPlugins = None,
       mauticLanguagePackUrl = None, mauticLanguage = None, mauticLocale = None,
       defaultTimezone = ''UTC'', mysqlDatabase = ''mautic'', mysqlUser = ''mautic'',
       mysqlPassword = ''dbsecret'', mysqlRootPassword = ''rootsecret'',
       domainName = Some ''demo.example.com'', githubToken = None \<rparr>"



text \<open>
  The answers of a host on which every command succeeds and whose database container
  runs but never becomes healthy.
\<close>

fun dbNeverHealthy :: "op \<Rightarrow> ProcessResult" where
  "dbNeverHealthy (Docker (DockerInspect n)) =
     (if n = ''mautibox_db'' then ok ''/mautibox_db,mysql:8.0,running,unhealthy''
      else ok (''/'' @ n @ '',mautic/mautic:6.0.5-apache,running,healthy''))"
| "dbNeverHealthy c = ok []"

text \<open>A host whose containers are created at first and run, with no healthcheck, after 15 seconds.\<close>

fun slowStartHost :: host where
  "slowStartHost tr (Docker (DockerInspect n)) =
     (if 15000 \<le> sleepTime tr
      then ok (''/'' @ n @ '',mautic/mautic:6.0.5-apache,running,<no value>'')
      else ok (''/'' @ n @ '',mautic/mautic:6.0.5-apache,created,''))"
| "slowStartHost tr c = ok []"

text \<open>The image last pulled in a trace, or else the given one.\<close>

fun lastPulled :: "op list \<Rightarrow> string \<Rightarrow> string" where
  "lastPulled [] img = img"
| "lastPulled (Docker (DockerPull i) # tr) img = lastPulled tr i"
| "lastPulled (c # tr) img = lastPulled tr img"

text \<open>
  A host on which every command succeeds and whose web container runs the image that
  was pulled last (\<open>mautic/mautic:6.0.4-apache\<close> before any pull).
\<close>

fun pullingHost :: host where
  "pullingHost tr (Docker (DockerInspect n)) =
     (if n = ''mautibox_web''
      then ok (''/mautibox_web,'' @ lastPulled tr ''mautic/mautic:6.0.4-apache'' @ '',running,healthy'')
      else ok (''/'' @ n @ '',mysql:8.0,running,healthy''))"
| "pullingHost tr (File (ReadTextFile p)) = ok ''image: mautic/mautic:6.0.4-apache''"
| "pullingHost tr c = ok []"

text \<open>A host on which the download of the item \<open>not a url\<close> fails.\<close>

fun secondDownloadFails :: host where
  "secondDownloadFails tr (Package (PluginDownload u a)) =
     (if u = ''not a url'' then failed ''curl: (3) URL rejected'' else ok [])"
| "secondDownloadFails tr (Package (ThemeDownloadAndExtract u a d)) =
     (if u = ''not a url'' then failed ''curl: (3) URL rejected'' else ok [])"
| "secondDownloadFails tr (Package PluginFileType) =
     ok ''plugin.zip: Zip archive data, at least v2.0 to extract''"
| "secondDownloadFails tr c = ok []"

definition threePlugins :: DeploymentConfig where
  "threePlugins = exampleConfig\<lparr> mauticPlugins :=
     Some (joinWith [CHR 0x0A]
       [''https://example.com/one.zip'', ''not a url'', ''https://example.com/three.zip'']) \<rparr>"

definition threeThemes :: DeploymentConfig where
  "threeThemes = exampleConfig\<lparr> mauticThemes :=
     Some (joinWith [CHR 0x0A]
       [''https://example.com/one.zip'', ''not a url'', ''https://example.com/three.zip'']) \<rparr>"

text \<open>
  A host on which every download saves an HTML error page: \<open>file\<close> reports an HTML
  document and \<open>unzip\<close> fails.
\<close>

fun htmlPageHost :: host where
  "htmlPageHost tr (Package (ThemeDownloadAndExtract u a d)) =
     failed ''End-of-central-directory signature not found''"
| "htmlPageHost tr (Package PluginFileType) = ok ''plugin.zip: HTML document, ASCII text''"
| "htmlPageHost tr (Package PluginExtractHere) = failed ''End-of-central-directory signature not found''"
| "htmlPageHost tr c = ok []"


subsection \<open>Web server and certificate hosts\<close>






text \<open>Certbot fails; the certificate query lists, or does not list, the domain.\<close>

definition certificatePresent :: certHost where
  "certificatePresent =
     \<lparr> certbotResult = failed ''too many certificates already issued'',
       certCheckResult = ok ''Certificate Name: demo.example.com'',
       finalConfig = None, statWorks = False, finalRecheck = None \<rparr>"

definition certificateAbsent :: certHost where
  "certificateAbsent =
     \<lparr> certbotResult = failed ''challenge failed'',
       certCheckResult = ok ''No certificates found.'',
       finalConfig = None, statWorks = False, finalRecheck = None \<rparr>"


section \<open>Properties of the configuration loader\<close>

subsection \<open>Splitting and joining\<close>

lemma split_on_nonempty: "split_on sep s \<noteq> []"
  by (induction s) (auto split: list.splits)

lemma split_on_key:
  "sep \<notin> set k \<Longrightarrow> split_on sep (k @ sep # v) = k # split_on sep v"
  by (induction k) (auto split: list.splits simp: split_on_nonempty)

lemma split_on_no_sep: "sep \<notin> set s \<Longrightarrow> split_on sep s = [s]"
  by (induction s) auto

lemma joinWith_Cons_head: "joinWith sep ((a # w) # ws) = a # joinWith sep (w # ws)"
  by (cases ws) simp_all

lemma joinWith_split_on: "joinWith [sep] (split_on sep s) = s"
proof (induction s)
  case Nil
  show ?case by simp
next
  case (Cons c cs)
  obtain w ws where sp: "split_on sep cs = w # ws"
    using split_on_nonempty [of sep cs] by (cases "split_on sep cs") auto
  show ?case
  proof (cases "c = sep")
    case True
    with Cons sp show ?thesis by simp
  next
    case False
    with Cons sp show ?thesis by (simp add: joinWith_Cons_head)
  qed
qed


subsection \<open>The shipped module\<close>

text \<open>
  Claim C10. The module \<open>scripts/config.ts\<close> does not parse: in the object literal
  that \<open>loadDeploymentConfig\<close> returns, no comma follows the value of \<open>defaultTimezone\<close>.
  So the load ends in a \<open>SyntaxError\<close> whatever \<open>deploy.env\<close> holds, also when the file
  gives a value to every required key: no line of the file is parsed, no required key
  is looked up and no configuration is returned.
\<close>

theorem loadDeploymentConfig_syntax_error:
  "\<not> propertiesParse returnedProperties \<and> loadDeploymentConfig file = Inl SyntaxError"
  by (simp add: loadDeploymentConfig_def returnedProperties_def)

theorem loadDeploymentConfig_syntax_error_witness:
  "list_all (\<lambda>f. truthy (parseEnv deployEnvComplete f)) required
   \<and> loadDeploymentConfig (Inr deployEnvComplete) = Inl SyntaxError"
proof -
  have "list_all (\<lambda>f. truthy (parseEnv deployEnvComplete f)) required"
    by code_simp
  then show ?thesis
    using loadDeploymentConfig_syntax_error [of "Inr deployEnvComplete"] by simp
qed


section \<open>Properties of the health wait\<close>

declare waitLoop.simps [simp del]

lemma nthOpt_numeral [simp]:
  "nthOpt (x # xs) (numeral k) = nthOpt xs (pred_numeral k)"
  by (simp add: numeral_eq_Suc)

lemma sleepTime_append: "sleepTime (xs @ ys) = sleepTime xs + sleepTime ys"
  by (induction xs rule: sleepTime.induct) simp_all

lemma snd_getContainerInfo:
  "snd (getContainerInfo sh n tr) = tr @ [Docker (DockerInspect n)]"
  by (simp add: getContainerInfo_def runShell_def Let_def)

lemma sleepTime_diagnostics: "sleepTime (diagnostics sh n T i tr) = sleepTime tr"
  by (simp add: diagnostics_def runShell_def Let_def sleepTime_append)

lemma sleepTime_sleep: "sleepTime (sleep sh ms tr) = sleepTime tr + ms"
  by (simp add: sleep_def runShell_def sleepTime_append)

lemma sleepTime_roundsFrom:
  "sleepTime (roundsFrom sh n T i k tr) = sleepTime tr + 15000 * k"
  by (induction k arbitrary: i tr)
     (simp_all add: sleepTime_sleep sleepTime_diagnostics snd_getContainerInfo sleepTime_append)

text \<open>When no poll ends the wait, the loop runs all its rounds and gives \<open>False\<close>.\<close>

lemma waitLoop_timeout:
  "\<lbrakk>\<forall>j<k. \<not> isHealthy (pollAt sh n T i j tr); T \<le> i + 15 * int k;
    k = 0 \<or> i + 15 * (int k - 1) < T\<rbrakk>
   \<Longrightarrow> waitLoop sh n T i tr = (False, roundsFrom sh n T i k tr)"
proof (induction k arbitrary: i tr)
  case 0
  then show ?case by (subst waitLoop.simps) simp
next
  case (Suc k)
  let ?tr' = "sleep sh 15000 (diagnostics sh n T i (snd (getContainerInfo sh n tr)))"
  from Suc.prems have lt: "i < T" by auto
  from Suc.prems(1) have h0: "\<not> isHealthy (fst (getContainerInfo sh n tr))"
    by (auto simp: pollAt_def dest: spec [of _ 0])
  have rest: "\<forall>j<k. \<not> isHealthy (pollAt sh n T (i + 15) j ?tr')"
    using Suc.prems(1) by (auto simp: pollAt_def dest: spec [of _ "Suc _"])
  have "waitLoop sh n T (i + 15) ?tr' = (False, roundsFrom sh n T (i + 15) k ?tr')"
    using rest Suc.prems(2,3) by (intro Suc.IH) auto
  then show ?case
    using lt h0 by (subst waitLoop.simps) (simp add: split_beta Let_def)
qed

text \<open>The first poll that sees the container healthy ends the wait with \<open>True\<close>.\<close>

lemma waitLoop_healthy:
  "\<lbrakk>\<forall>j<k. \<not> isHealthy (pollAt sh n T i j tr); isHealthy (pollAt sh n T i k tr);
    i + 15 * int k < T\<rbrakk>
   \<Longrightarrow> waitLoop sh n T i tr = (True, roundsFrom sh n T i k tr @ [Docker (DockerInspect n)])"
proof (induction k arbitrary: i tr)
  case 0
  then show ?case
    by (subst waitLoop.simps) (simp add: pollAt_def split_beta Let_def snd_getContainerInfo)
next
  case (Suc k)
  let ?tr' = "sleep sh 15000 (diagnostics sh n T i (snd (getContainerInfo sh n tr)))"
  from Suc.prems have lt: "i < T" by auto
  from Suc.prems(1) have h0: "\<not> isHealthy (fst (getContainerInfo sh n tr))"
    by (auto simp: pollAt_def dest: spec [of _ 0])
  have rest: "\<forall>j<k. \<not> isHealthy (pollAt sh n T (i + 15) j ?tr')"
    using Suc.prems(1) by (auto simp: pollAt_def dest: spec [of _ "Suc _"])
  have "waitLoop sh n T (i + 15) ?tr'
        = (True, roundsFrom sh n T (i + 15) k ?tr' @ [Docker (DockerInspect n)])"
    using rest Suc.prems(2,3) by (intro Suc.IH) (auto simp: pollAt_def)
  then show ?case
    using lt h0 by (subst waitLoop.simps) (simp add: split_beta Let_def)
qed

lemma polls_ge: "timeoutSeconds \<le> 15 * int (polls timeoutSeconds)"
  unfolding polls_def by linarith

lemma polls_tight:
  "polls timeoutSeconds = 0 \<or> 15 * (int (polls timeoutSeconds) - 1) < timeoutSeconds"
proof (cases "timeoutSeconds \<le> 0")
  case True
  then have "(timeoutSeconds + 14) div 15 \<le> 0" by linarith
  then show ?thesis by (simp add: polls_def)
next
  case False
  then have "0 \<le> (timeoutSeconds + 14) div 15" by linarith
  then have "int (polls timeoutSeconds) = (timeoutSeconds + 14) div 15" by (simp add: polls_def)
  moreover have "15 * ((timeoutSeconds + 14) div 15) \<le> timeoutSeconds + 14" by presburger
  ultimately show ?thesis by simp
qed

lemma polls_less: "k < polls timeoutSeconds \<Longrightarrow> 15 * int k < timeoutSeconds"
  unfolding polls_def by linarith

text \<open>On a host whose answers do not change, a container that is not healthy never is.\<close>

lemma waitForHealthy_constant_host:
  assumes "\<not> isHealthy (fst (getContainerInfo (\<lambda>tr. r) n []))"
  shows "fst (waitForHealthy (\<lambda>tr. r) n T tr) = False"
proof -
  define info where "info = fst (getContainerInfo (\<lambda>tr. r) n [])"
  have c: "fst (getContainerInfo (\<lambda>tr. r) n t) = info" for t
    by (simp add: info_def getContainerInfo_def runShell_def Let_def)
  have u: "\<not> isHealthy info" using assms by (simp add: info_def)
  have "waitLoop (\<lambda>tr. r) n T 0 tr = (False, roundsFrom (\<lambda>tr. r) n T 0 (polls T) tr)"
    using polls_ge [of T] polls_tight [of T] u
    by (intro waitLoop_timeout) (auto simp: pollAt_def c)
  then show ?thesis by (simp add: waitForHealthy_def)
qed

text \<open>A wait whose first poll sees the container healthy.\<close>

lemma waitForHealthy_first_poll:
  "isHealthy (fst (getContainerInfo sh n tr)) \<Longrightarrow> 0 < T \<Longrightarrow>
   waitForHealthy sh n T tr = (True, tr @ [Docker (DockerInspect n)])"
  unfolding waitForHealthy_def
  using waitLoop_healthy [of 0 sh n T 0 tr] by (simp add: pollAt_def)

text \<open>
  Claim C5. \<open>waitForHealthy\<close> is a total function: its loop is defined with a measure
  that every round decreases. It polls the container once per round and sleeps 15
  seconds after a poll that does not end the wait. If no poll of the
  \<open>polls timeoutSeconds\<close> rounds (the timeout over 15, rounded up) sees the container
  healthy, it returns \<open>False\<close> after exactly that many rounds, having slept 15 seconds
  in each: at least the timeout and less than 15 seconds more, 30 seconds for a timeout
  of 30. If the poll of round \<open>k\<close> is the first that sees the container healthy, it
  returns \<open>True\<close> with that poll, having slept \<open>k\<close> times. Healthy means: status
  \<open>running\<close> and a health that is absent, empty or \<open>healthy\<close>.
\<close>

theorem waitForHealthy_bounded:
  "((\<forall>j<polls timeoutSeconds. \<not> isHealthy (pollAt sh containerName timeoutSeconds 0 j tr)) \<longrightarrow>
      waitForHealthy sh containerName timeoutSeconds tr
        = (False, roundsFrom sh containerName timeoutSeconds 0 (polls timeoutSeconds) tr)
      \<and> sleepTime (snd (waitForHealthy sh containerName timeoutSeconds tr))
        = sleepTime tr + 15000 * polls timeoutSeconds)
   \<and> (k < polls timeoutSeconds \<and> isHealthy (pollAt sh containerName timeoutSeconds 0 k tr)
       \<and> (\<forall>j<k. \<not> isHealthy (pollAt sh containerName timeoutSeconds 0 j tr)) \<longrightarrow>
      waitForHealthy sh containerName timeoutSeconds tr
        = (True, roundsFrom sh containerName timeoutSeconds 0 k tr
                   @ [Docker (DockerInspect containerName)])
      \<and> sleepTime (snd (waitForHealthy sh containerName timeoutSeconds tr))
        = sleepTime tr + 15000 * k)
   \<and> timeoutSeconds \<le> 15 * int (polls timeoutSeconds)
   \<and> (0 < timeoutSeconds \<longrightarrow> 15 * int (polls timeoutSeconds) < timeoutSeconds + 15)
   \<and> polls 30 = 2
   \<and> isHealthy info =
       (\<exists>c. info = Some c \<and> status c = ''running''
            \<and> (health c = None \<or> health c = Some [] \<or> health c = Some ''healthy''))"
proof (intro conjI impI)
  assume a: "\<forall>j<polls timeoutSeconds. \<not> isHealthy (pollAt sh containerName timeoutSeconds 0 j tr)"
  show w: "waitForHealthy sh containerName timeoutSeconds tr
        = (False, roundsFrom sh containerName timeoutSeconds 0 (polls timeoutSeconds) tr)"
    unfolding waitForHealthy_def
    using a polls_ge [of timeoutSeconds] polls_tight [of timeoutSeconds]
    by (intro waitLoop_timeout) auto
  show "sleepTime (snd (waitForHealthy sh containerName timeoutSeconds tr))
        = sleepTime tr + 15000 * polls timeoutSeconds"
    by (simp add: w sleepTime_roundsFrom)
next
  assume a: "k < polls timeoutSeconds \<and> isHealthy (pollAt sh containerName timeoutSeconds 0 k tr)
       \<and> (\<forall>j<k. \<not> isHealthy (pollAt sh containerName timeoutSeconds 0 j tr))"
  show w: "waitForHealthy sh containerName timeoutSeconds tr
        = (True, roundsFrom sh containerName timeoutSeconds 0 k tr
                   @ [Docker (DockerInspect containerName)])"
    unfolding waitForHealthy_def
    using a polls_less [of k timeoutSeconds]
    by (intro waitLoop_healthy) auto
  show "sleepTime (snd (waitForHealthy sh containerName timeoutSeconds tr))
        = sleepTime tr + 15000 * k"
    by (simp add: w sleepTime_roundsFrom sleepTime_append)
next
  show "timeoutSeconds \<le> 15 * int (polls timeoutSeconds)" by (rule polls_ge)
next
  assume "0 < timeoutSeconds"
  then show "15 * int (polls timeoutSeconds) < timeoutSeconds + 15"
    using polls_tight [of timeoutSeconds] polls_ge [of timeoutSeconds] by (auto simp: polls_def)
next
  show "polls 30 = 2" by (simp add: polls_def)
next
  show "isHealthy info =
       (\<exists>c. info = Some c \<and> status c = ''running''
            \<and> (health c = None \<or> health c = Some [] \<or> health c = Some ''healthy''))"
    by (cases info) (auto simp: isHealthy_def elim: truthy.elims)
qed

theorem waitForHealthy_bounded_witness:
  "waitForHealthy (\<lambda>tr. dbNeverHealthy) ''mautibox_db'' 30 [] =
     (False,
      [Docker (DockerInspect ''mautibox_db''), Docker (DockerLogs ''mautibox_db'' 15),
       Docker (ExecPsMysql ''mautibox_db''), Docker (ExecLsMysql ''mautibox_db''), Sleep 15000,
       Docker (DockerInspect ''mautibox_db''), Docker (DockerLogs ''mautibox_db'' 15),
       Docker (ExecPsMysql ''mautibox_db''), Docker (ExecLsMysql ''mautibox_db''), Sleep 15000])
   \<and> sleepTime (snd (waitForHealthy (\<lambda>tr. dbNeverHealthy) ''mautibox_db'' 30 [])) = 30000
   \<and> waitForHealthy slowStartHost ''mautibox_web'' 300 [] =
     (True, [Docker (DockerInspect ''mautibox_web''), Sleep 15000,
             Docker (DockerInspect ''mautibox_web'')])
   \<and> sleepTime (snd (waitForHealthy slowStartHost ''mautibox_web'' 300 [])) = 15000"
proof -
  note ev = pollAt_def getContainerInfo_def runShell_def sleep_def diagnostics_def ok_def
    isHealthy_def Let_def numeral_2_eq_2
  have p30: "polls 30 = 2" and p300: "1 < polls 300" by (simp_all add: polls_def)
  have n0: "\<not> isHealthy (pollAt (\<lambda>tr. dbNeverHealthy) ''mautibox_db'' 30 0 0 [])"
    and n1: "\<not> isHealthy (pollAt (\<lambda>tr. dbNeverHealthy) ''mautibox_db'' 30 0 1 [])"
    by (simp_all add: ev)
  have a: "\<forall>j<polls 30. \<not> isHealthy (pollAt (\<lambda>tr. dbNeverHealthy) ''mautibox_db'' 30 0 j [])"
    using n0 n1 by (simp add: p30 numeral_2_eq_2 less_Suc_eq)
  have r: "roundsFrom (\<lambda>tr. dbNeverHealthy) ''mautibox_db'' 30 0 2 [] =
      [Docker (DockerInspect ''mautibox_db''), Docker (DockerLogs ''mautibox_db'' 15),
       Docker (ExecPsMysql ''mautibox_db''), Docker (ExecLsMysql ''mautibox_db''), Sleep 15000,
       Docker (DockerInspect ''mautibox_db''), Docker (DockerLogs ''mautibox_db'' 15),
       Docker (ExecPsMysql ''mautibox_db''), Docker (ExecLsMysql ''mautibox_db''), Sleep 15000]"
    by (simp add: ev)
  have s0: "\<not> isHealthy (pollAt slowStartHost ''mautibox_web'' 300 0 0 [])"
    and s1: "isHealthy (pollAt slowStartHost ''mautibox_web'' 300 0 1 [])"
    by (simp_all add: ev)
  have b: "1 < polls 300 \<and> isHealthy (pollAt slowStartHost ''mautibox_web'' 300 0 1 [])
       \<and> (\<forall>j<1. \<not> isHealthy (pollAt slowStartHost ''mautibox_web'' 300 0 j []))"
    using s0 s1 p300 by simp
  have r': "roundsFrom slowStartHost ''mautibox_web'' 300 0 1 [] =
      [Docker (DockerInspect ''mautibox_web''), Sleep 15000]"
    by (simp add: ev)
  have w1: "waitForHealthy (\<lambda>tr. dbNeverHealthy) ''mautibox_db'' 30 []
        = (False, roundsFrom (\<lambda>tr. dbNeverHealthy) ''mautibox_db'' 30 0 (polls 30) [])
      \<and> sleepTime (snd (waitForHealthy (\<lambda>tr. dbNeverHealthy) ''mautibox_db'' 30 []))
        = sleepTime [] + 15000 * polls 30"
    using waitForHealthy_bounded [of 30 "\<lambda>tr. dbNeverHealthy" "''mautibox_db''" "[]" 0 None] a
    by blast
  have w2: "waitForHealthy slowStartHost ''mautibox_web'' 300 []
        = (True, roundsFrom slowStartHost ''mautibox_web'' 300 0 1 []
                   @ [Docker (DockerInspect ''mautibox_web'')])
      \<and> sleepTime (snd (waitForHealthy slowStartHost ''mautibox_web'' 300 []))
        = sleepTime [] + 15000 * 1"
    using waitForHealthy_bounded [of 300 slowStartHost "''mautibox_web''" "[]" 1 None] b
    by blast
  show ?thesis
    using w1 w2 unfolding p30 r r' by simp
qed


section \<open>Properties of the state inspection\<close>







text \<open>\<open>needsUpdate\<close> is true exactly when no tag is read or the tag read is not the target.\<close>

lemma needsUpdate_iff:
  "fst (needsUpdate cfg sh tr) =
     (case fst (getCurrentMauticVersion sh tr) of
        None \<Rightarrow> True
      | Some v \<Rightarrow> v \<noteq> mauticVersion cfg)"
  by (simp add: needsUpdate_def split_beta Let_def split: option.splits)


section \<open>Properties of the update\<close>

lemma getCurrentMauticVersion_tag:
  assumes "fst (getContainerInfo sh ''mautibox_web'' tr) = Some info"
    and "image info = repository @ CHR '':'' # tag"
    and "CHR '':'' \<notin> set repository" and "CHR '':'' \<notin> set tag"
  shows "fst (getCurrentMauticVersion sh tr) = (if tag = [] then None else Some tag)"
proof -
  have "split_on CHR '':'' (image info) = [repository, tag]"
    unfolding assms(2) split_on_key [OF assms(3)] split_on_no_sep [OF assms(4)] by (rule refl)
  then show ?thesis
    using assms(1) by (cases tag) (simp_all add: getCurrentMauticVersion_def split_beta Let_def)
qed

lemma baseVersion_eq: "(baseVersion cfg = mauticVersion cfg) = endsWith ''-apache'' (mauticVersion cfg)"
  by (simp add: baseVersion_def)

lemma colon_baseVersion:
  "CHR '':'' \<notin> set (mauticVersion cfg) \<Longrightarrow> CHR '':'' \<notin> set (baseVersion cfg)"
  by (simp add: baseVersion_def)

lemma baseVersion_nonempty: "baseVersion cfg \<noteq> []"
  by (auto simp: baseVersion_def endsWith_def)

lemma performUpdate_pulls:
  "fst (performUpdate cfg sh tr) \<Longrightarrow>
   success (sh tr (Docker (DockerPull (''mautic/mautic:'' @ baseVersion cfg))))"
  by (auto simp: performUpdate_def pullImage_def runShell_def Let_def split_beta split: if_splits)

text \<open>
  Claim C3. \<open>needsUpdate\<close> returns true exactly when no tag is read from the web
  container or the tag read differs from the configured version. An update that
  succeeds has pulled the image \<open>mautic/mautic:\<close> followed by the configured version,
  with \<open>-apache\<close> appended when the version does not end with it. So when the web
  container then runs the image that was pulled, \<open>needsUpdate\<close> returns false when the
  configured version ends with \<open>-apache\<close>, and true when it does not.
\<close>

theorem needsUpdate_after_performUpdate:
  "fst (needsUpdate cfg sh tr) =
     (case fst (getCurrentMauticVersion sh tr) of
        None \<Rightarrow> True
      | Some v \<Rightarrow> v \<noteq> mauticVersion cfg)
   \<and> (fst (performUpdate cfg sh tr0) \<longrightarrow>
        success (sh tr0 (Docker (DockerPull (''mautic/mautic:'' @ baseVersion cfg)))))
   \<and> (fst (getContainerInfo sh ''mautibox_web'' tr) = Some info
        \<and> image info = ''mautic/mautic:'' @ baseVersion cfg
        \<and> CHR '':'' \<notin> set (mauticVersion cfg) \<longrightarrow>
        fst (needsUpdate cfg sh tr) = (\<not> endsWith ''-apache'' (mauticVersion cfg)))"
proof (intro conjI impI)
  show n: "fst (needsUpdate cfg sh tr) =
     (case fst (getCurrentMauticVersion sh tr) of
        None \<Rightarrow> True
      | Some v \<Rightarrow> v \<noteq> mauticVersion cfg)"
    by (rule needsUpdate_iff)
  show "success (sh tr0 (Docker (DockerPull (''mautic/mautic:'' @ baseVersion cfg))))"
    if "fst (performUpdate cfg sh tr0)"
    using that by (rule performUpdate_pulls)
  show "fst (needsUpdate cfg sh tr) = (\<not> endsWith ''-apache'' (mauticVersion cfg))"
    if a: "fst (getContainerInfo sh ''mautibox_web'' tr) = Some info
        \<and> image info = ''mautic/mautic:'' @ baseVersion cfg
        \<and> CHR '':'' \<notin> set (mauticVersion cfg)"
  proof -
    have i: "image info = ''mautic/mautic'' @ CHR '':'' # baseVersion cfg"
      using a by simp
    have "fst (getCurrentMauticVersion sh tr) = Some (baseVersion cfg)"
      using getCurrentMauticVersion_tag [OF conjunct1 [OF a] i _ colon_baseVersion]
        a baseVersion_nonempty [of cfg]
      by simp
    then show ?thesis
      unfolding n using baseVersion_eq [of cfg] by simp
  qed
qed

text \<open>The update on the example host, from the empty trace.\<close>

lemma performUpdate_pullingHost:
  "performUpdate exampleConfig pullingHost [] =
     (True,
      [Docker (DockerPull ''mautic/mautic:6.0.5-apache''),
       File (ReadTextFile ''docker-compose.yml''),
       File (WriteTextFile ''docker-compose.yml'' ''image: mautic/mautic:6.0.5-apache''),
       Docker ComposeDown, Docker ComposeRm, Docker ComposeConfig, Docker ComposeUp,
       Docker ComposePs, Docker ComposePs,
       Docker (DockerInspect ''mautibox_web''), Docker (DockerInspect ''mautibox_db''),
       Deploy ClearCache, File (Stat ''/var/www/templates/customisation''),
       Deploy CopyCustomisation, Deploy ClearCache])"
  by (simp add: performUpdate_def pullImage_def updateDockerComposeVersion_def
      recreateContainers_def runShell_def sleep_def clearCache_def applyWhiteLabeling_def
      baseVersion_def exampleConfig_def endsWith_def matchImageAt_def startsWith_def
      ok_def Let_def waitForHealthy_first_poll getContainerInfo_def isHealthy_def)

theorem needsUpdate_after_performUpdate_witness:
  "fst (performUpdate exampleConfig pullingHost []) = True
   \<and> mauticVersion exampleConfig = ''6.0.5''
   \<and> fst (getCurrentMauticVersion pullingHost (snd (performUpdate exampleConfig pullingHost [])))
       = Some ''6.0.5-apache''
   \<and> fst (needsUpdate exampleConfig pullingHost (snd (performUpdate exampleConfig pullingHost [])))
       = True"
proof -
  let ?tr = "snd (performUpdate exampleConfig pullingHost [])"
  let ?info = "\<lparr> name = ''mautibox_web'', image = ''mautic/mautic:6.0.5-apache'',
                 status = ''running'', health = Some ''healthy'' \<rparr>"
  have g: "fst (getContainerInfo pullingHost ''mautibox_web'' ?tr) = Some ?info"
    unfolding performUpdate_pullingHost
    by (simp add: getContainerInfo_def runShell_def ok_def)
  have b: "baseVersion exampleConfig = ''6.0.5-apache''"
    "\<not> endsWith ''-apache'' (mauticVersion exampleConfig)"
    "mauticVersion exampleConfig = ''6.0.5''"
    by (simp_all add: baseVersion_def exampleConfig_def endsWith_def)
  have v: "fst (getCurrentMauticVersion pullingHost ?tr) = Some ''6.0.5-apache''"
    using g by (simp add: getCurrentMauticVersion_def split_beta Let_def)
  show ?thesis
    using needsUpdate_after_performUpdate
            [where cfg = exampleConfig and sh = pullingHost and tr = ?tr and ?tr0.0 = "[]"
               and info = ?info]
      g b v
    by (simp add: performUpdate_pullingHost)
qed


section \<open>Properties of the certificate request\<close>

text \<open>
  Claim C6. When certbot fails, \<open>generateCertificate\<close> returns true exactly when the
  query \<open>certbot certificates -d DOMAIN\<close> succeeds, a domain is configured and the
  output of the query contains the domain name; otherwise it returns false.
\<close>

theorem generateCertificate_existing_certificate:
  "(\<not> success (certbotResult h) \<longrightarrow>
      generateCertificate cfg h =
        (success (certCheckResult h) \<and> truthy (domainName cfg)
         \<and> includesStr (orElse (domainName cfg) []) (output' (certCheckResult h))))
   \<and> (\<not> success (certbotResult h) \<and> domainName cfg = Some d \<and> d \<noteq> [] \<longrightarrow>
      generateCertificate cfg h =
        (success (certCheckResult h) \<and> includesStr d (output' (certCheckResult h))))"
  by (auto simp: generateCertificate_def)

theorem generateCertificate_existing_certificate_witness:
  "generateCertificate exampleConfig certificatePresent = True
   \<and> generateCertificate exampleConfig certificateAbsent = False"
  using generateCertificate_existing_certificate [of certificatePresent exampleConfig "''demo.example.com''"]
    generateCertificate_existing_certificate [of certificateAbsent exampleConfig "''demo.example.com''"]
  by (simp add: certificatePresent_def certificateAbsent_def exampleConfig_def ok_def failed_def
      startsWith_def)


section \<open>Properties of the theme and plugin installer\<close>

subsection \<open>Traces only grow\<close>

lemma grows_refl [simp, intro]: "grows tr tr"
  by (simp add: grows_def)

lemma grows_trans: "grows a b \<Longrightarrow> grows b c \<Longrightarrow> grows a c"
  by (auto simp: grows_def)

lemma grows_set: "grows a b \<Longrightarrow> x \<in> set a \<Longrightarrow> x \<in> set b"
  by (auto simp: grows_def)

lemma grows_runShell [simp, intro]: "grows tr (snd (runShell sh c tr))"
  by (simp add: grows_def runShell_def)

lemma grows_runShell' : "grows tr t \<Longrightarrow> grows tr (snd (runShell sh c t))"
  by (auto simp: grows_def runShell_def)

lemma mem_runShell [simp]: "c \<in> set (snd (runShell sh c tr))"
  by (simp add: runShell_def)

lemma grows_removeExistingPlugin: "grows tr (removeExistingPlugin sh d tr)"
  by (auto simp: removeExistingPlugin_def split_beta Let_def intro: grows_runShell' )

lemma grows_extractPlugin: "grows tr (snd (extractPlugin sh u d tr))"
  by (auto simp: extractPlugin_def split_beta Let_def intro!: grows_runShell')

lemma grows_registerPlugin: "grows tr (registerPlugin sh d tr)"
  by (auto simp: registerPlugin_def split_beta Let_def intro!: grows_runShell')

lemma grows_installPlugin: "grows tr (snd (installPlugin cfg sh u tr))"
  unfolding installPlugin_def Let_def split_beta
  by (auto intro!: grows_runShell' grows_trans [OF _ grows_registerPlugin]
       grows_trans [OF _ grows_extractPlugin] grows_trans [OF _ grows_removeExistingPlugin])

lemma grows_installTheme: "grows tr (snd (installTheme cfg sh u tr))"
  unfolding installTheme_def Let_def split_beta
  by (auto intro!: grows_runShell')

subsection \<open>Every item is attempted\<close>

lemma mem_installPlugin: "pluginDownload cfg u \<in> set (snd (installPlugin cfg sh u tr))"
proof -
  obtain cleanUrl directory token where p: "parsePackageUrl u = (cleanUrl, directory, token)"
    by (cases "parsePackageUrl u") auto
  let ?d = "Package (PluginDownload cleanUrl (downloadAuth cfg token cleanUrl))"
  let ?t3 = "snd (runShell sh (Package PluginToolsCheck)
                (removeExistingPlugin sh directory (snd (runShell sh (Package PluginRemoveTemp) tr))))"
  let ?t4 = "snd (runShell sh ?d ?t3)"
  have a: "?d \<in> set ?t4" by simp
  let ?t5 = "snd (runShell sh (Package PluginFileType) ?t4)"
  let ?t6 = "snd (extractPlugin sh cleanUrl directory ?t5)"
  have g45: "grows ?t4 ?t5" by simp
  have g56: "grows ?t5 ?t6" by (rule grows_extractPlugin)
  have g5z: "grows ?t4 (snd (runShell sh (Package PluginRemoveZip) ?t5))"
    by (rule grows_trans [OF g45]) simp
  have g46: "grows ?t4 ?t6" by (rule grows_trans [OF g45 g56])
  have g6r: "grows ?t4 (registerPlugin sh directory ?t6)"
    by (rule grows_trans [OF g46 grows_registerPlugin])
  have b: "grows ?t4 (snd (installPlugin cfg sh u tr))"
    unfolding installPlugin_def Let_def split_beta p
    using g5z g46 g6r by simp
  show ?thesis using grows_set [OF b a] by (simp add: pluginDownload_def p)
qed

lemma mem_installTheme: "themeDownload cfg u \<in> set (snd (installTheme cfg sh u tr))"
proof -
  obtain cleanUrl directory token where p: "parsePackageUrl u = (cleanUrl, directory, token)"
    by (cases "parsePackageUrl u") auto
  show ?thesis
    unfolding installTheme_def themeDownload_def Let_def split_beta p
    by (auto simp: runShell_def)
qed

lemma fst_installTheme: "fst (installTheme cfg sh u tr) = Inr ()"
  by (simp add: installTheme_def split_beta Let_def)

lemma grows_installEach:
  assumes "\<And>item t. grows t (snd (inst sh item t))"
  shows "grows tr (snd (installEach inst sh items s tr))"
proof (induction items arbitrary: s tr)
  case Nil
  show ?case by simp
next
  case (Cons item items)
  obtain r tr1 where i: "inst sh item tr = (r, tr1)" by (cases "inst sh item tr") auto
  have g: "grows tr tr1" using assms [of tr item] i by simp
  show ?case
    using i by (cases r) (auto intro: grows_trans [OF g Cons.IH])
qed

lemma mem_installEach:
  assumes "\<And>item t. grows t (snd (inst sh item t))"
    and "\<And>item t. mark item \<in> set (snd (inst sh item t))"
  shows "item \<in> set items \<Longrightarrow> mark item \<in> set (snd (installEach inst sh items s tr))"
proof (induction items arbitrary: s tr)
  case Nil
  then show ?case by simp
next
  case (Cons x items)
  obtain r tr1 where i: "inst sh x tr = (r, tr1)" by (cases "inst sh x tr") auto
  have m: "mark x \<in> set tr1" using assms(2) [of x tr] i by simp
  show ?case
  proof (cases "item = x")
    case True
    have "grows tr1 (snd (installEach inst sh items s' tr1))" for s'
      by (rule grows_installEach) (rule assms(1))
    then show ?thesis
      using i m True by (cases r) (auto intro: grows_set)
  next
    case False
    with Cons.prems have "item \<in> set items" by simp
    then show ?thesis
      using i Cons.IH by (cases r) auto
  qed
qed

lemma grows_installThemesAndPluginsRuntime:
  "grows tr (snd (installThemesAndPluginsRuntime cfg sh tr))"
proof -
  have t: "grows t (snd (installEach (installTheme cfg) sh items s t))" for items s t
    by (rule grows_installEach) (rule grows_installTheme)
  have p: "grows t (snd (installEach (installPlugin cfg) sh items s t))" for items s t
    by (rule grows_installEach) (rule grows_installPlugin)
  show ?thesis
    unfolding installThemesAndPluginsRuntime_def Let_def split_beta
    using t p grows_trans [OF t p] by auto
qed

lemma mem_installThemesAndPluginsRuntime:
  "x \<in> set tr \<Longrightarrow> x \<in> set (snd (installThemesAndPluginsRuntime cfg sh tr))"
  by (rule grows_set [OF grows_installThemesAndPluginsRuntime])

subsection \<open>Every item is counted and reported\<close>

lemma installEach_counted:
  "counted s \<Longrightarrow> counted (fst (installEach inst sh items s tr))"
proof (induction items arbitrary: s tr)
  case Nil
  then show ?case by simp
next
  case (Cons item items)
  obtain r tr1 where i: "inst sh item tr = (r, tr1)" by (cases "inst sh item tr") auto
  show ?case
  proof (cases r)
    case (Inl e)
    have "counted (s\<lparr>failureCount := Suc (failureCount s),
                      reported := reported s @ [(item, False)]\<rparr>)"
      using Cons.prems by (simp add: counted_def)
    from Cons.IH [OF this] show ?thesis using i Inl by simp
  next
    case (Inr u)
    have "counted (s\<lparr>successCount := Suc (successCount s),
                      reported := reported s @ [(item, True)]\<rparr>)"
      using Cons.prems by (simp add: counted_def)
    from Cons.IH [OF this] show ?thesis using i Inr by simp
  qed
qed

lemma installEach_reported:
  "map fst (reported (fst (installEach inst sh items s tr))) = map fst (reported s) @ items"
proof (induction items arbitrary: s tr)
  case Nil
  show ?case by simp
next
  case (Cons item items)
  obtain r tr1 where i: "inst sh item tr = (r, tr1)" by (cases "inst sh item tr") auto
  show ?case
    using i by (cases r) (simp_all add: Cons.IH)
qed

lemma installEach_outcomes:
  "map snd (reported (fst (installEach inst sh items s tr)))
     = map snd (reported s) @ outcomes inst sh items tr"
proof (induction items arbitrary: s tr)
  case Nil
  show ?case by simp
next
  case (Cons item items)
  obtain r tr1 where i: "inst sh item tr = (r, tr1)" by (cases "inst sh item tr") auto
  show ?case
    using i by (cases r) (simp_all add: Cons.IH)
qed

lemma outcomes_installTheme:
  "outcomes (installTheme cfg) sh items tr = replicate (length items) True"
proof (induction items arbitrary: tr)
  case Nil
  show ?case by simp
next
  case (Cons item items)
  obtain r tr1 where i: "installTheme cfg sh item tr = (r, tr1)"
    by (cases "installTheme cfg sh item tr") auto
  have "r = Inr ()" using fst_installTheme [of cfg sh item tr] i by simp
  then show ?case using i by (simp add: Cons.IH)
qed

lemma length_filter_partition:
  "length (filter snd xs) + length (filter (\<lambda>r. \<not> snd r) xs) = length xs"
  by (induction xs) auto

lemma installEach_from_noItems:
  "map fst (reported (fst (installEach inst sh items noItems tr))) = items
   \<and> successCount (fst (installEach inst sh items noItems tr))
       = length (filter snd (reported (fst (installEach inst sh items noItems tr))))
   \<and> failureCount (fst (installEach inst sh items noItems tr))
       = length (filter (\<lambda>r. \<not> snd r) (reported (fst (installEach inst sh items noItems tr))))
   \<and> successCount (fst (installEach inst sh items noItems tr))
       + failureCount (fst (installEach inst sh items noItems tr)) = length items"
proof -
  let ?s = "fst (installEach inst sh items noItems tr)"
  have c: "counted ?s" by (rule installEach_counted) (simp add: counted_def noItems_def)
  have r: "map fst (reported ?s) = items" using installEach_reported [of inst sh items noItems tr]
    by (simp add: noItems_def)
  have "length (reported ?s) = length items" using r by (metis length_map)
  then show ?thesis using c r length_filter_partition [of "reported ?s"] by (simp add: counted_def)
qed

text \<open>
  Claim C7. In \<open>installThemesAndPluginsRuntime\<close> every item of the newline-delimited list
  of plugins is processed whatever happens to the others: the lines reported are the
  items of the list in their order, one line each; the line of an item says whether its
  call of \<open>installPlugin\<close> returned or threw; the two counters are the numbers of lines
  reporting a success and a failure, so they add up to the number of items; and the
  download of every item is among the commands run, also when an earlier item has
  failed. For the list of themes every item is attempted and reported as well, but
  \<open>installTheme\<close> never throws: every theme is reported as installed and the failure
  counter of the themes is 0, also for an item whose download failed. The function
  returns its summaries: no failure of an item ends the batch.
\<close>

theorem installThemesAndPluginsRuntime_isolates_failures:
  "(truthy (mauticPlugins cfg) \<longrightarrow>
      (let plugins = snd (fst (installThemesAndPluginsRuntime cfg sh tr));
           items = packageItems (orElse (mauticPlugins cfg) []);
           start = (if truthy (mauticThemes cfg)
                    then snd (installEach (installTheme cfg) sh
                                (packageItems (orElse (mauticThemes cfg) [])) noItems tr)
                    else tr)
       in map fst (reported plugins) = items
          \<and> map snd (reported plugins) = outcomes (installPlugin cfg) sh items start
          \<and> successCount plugins = length (filter snd (reported plugins))
          \<and> failureCount plugins = length (filter (\<lambda>r. \<not> snd r) (reported plugins))
          \<and> successCount plugins + failureCount plugins = length items
          \<and> (\<forall>item\<in>set items.
                pluginDownload cfg item \<in> set (snd (installThemesAndPluginsRuntime cfg sh tr)))))
   \<and> (truthy (mauticThemes cfg) \<longrightarrow>
      (let themes = fst (fst (installThemesAndPluginsRuntime cfg sh tr));
           items = packageItems (orElse (mauticThemes cfg) [])
       in map fst (reported themes) = items
          \<and> map snd (reported themes) = replicate (length items) True
          \<and> successCount themes = length items
          \<and> failureCount themes = 0
          \<and> (\<forall>item\<in>set items.
                themeDownload cfg item \<in> set (snd (installThemesAndPluginsRuntime cfg sh tr)))))"
proof (intro conjI impI)
  let ?pitems = "packageItems (orElse (mauticPlugins cfg) [])"
  let ?titems = "packageItems (orElse (mauticThemes cfg) [])"
  let ?t1 = "if truthy (mauticThemes cfg)
             then snd (installEach (installTheme cfg) sh ?titems noItems tr) else tr"
  {
    assume p: "truthy (mauticPlugins cfg)"
    have s: "snd (fst (installThemesAndPluginsRuntime cfg sh tr))
              = fst (installEach (installPlugin cfg) sh ?pitems noItems ?t1)"
      using p by (simp add: installThemesAndPluginsRuntime_def split_beta Let_def)
    have t: "snd (installThemesAndPluginsRuntime cfg sh tr)
              = snd (installEach (installPlugin cfg) sh ?pitems noItems ?t1)"
      using p by (simp add: installThemesAndPluginsRuntime_def split_beta Let_def)
    have m: "\<forall>item\<in>set ?pitems. pluginDownload cfg item
               \<in> set (snd (installEach (installPlugin cfg) sh ?pitems noItems ?t1))"
      by (intro ballI mem_installEach grows_installPlugin mem_installPlugin)
    have o: "map snd (reported (fst (installEach (installPlugin cfg) sh ?pitems noItems ?t1)))
              = outcomes (installPlugin cfg) sh ?pitems ?t1"
      using installEach_outcomes [of "installPlugin cfg" sh ?pitems noItems ?t1]
      by (simp add: noItems_def)
    show "let plugins = snd (fst (installThemesAndPluginsRuntime cfg sh tr));
              items = packageItems (orElse (mauticPlugins cfg) []);
              start = (if truthy (mauticThemes cfg)
                       then snd (installEach (installTheme cfg) sh
                                   (packageItems (orElse (mauticThemes cfg) [])) noItems tr)
                       else tr)
          in map fst (reported plugins) = items
             \<and> map snd (reported plugins) = outcomes (installPlugin cfg) sh items start
             \<and> successCount plugins = length (filter snd (reported plugins))
             \<and> failureCount plugins = length (filter (\<lambda>r. \<not> snd r) (reported plugins))
             \<and> successCount plugins + failureCount plugins = length items
             \<and> (\<forall>item\<in>set items.
                   pluginDownload cfg item \<in> set (snd (installThemesAndPluginsRuntime cfg sh tr)))"
      unfolding Let_def s t
      using installEach_from_noItems [of "installPlugin cfg" sh ?pitems ?t1] m o by blast
  }
  {
    assume p: "truthy (mauticThemes cfg)"
    let ?s = "fst (installEach (installTheme cfg) sh ?titems noItems tr)"
    let ?tt = "snd (installEach (installTheme cfg) sh ?titems noItems tr)"
    have s: "fst (fst (installThemesAndPluginsRuntime cfg sh tr)) = ?s"
      using p by (simp add: installThemesAndPluginsRuntime_def split_beta Let_def)
    have g: "grows ?tt (snd (installThemesAndPluginsRuntime cfg sh tr))"
      using p by (auto simp: installThemesAndPluginsRuntime_def split_beta Let_def
          intro!: grows_installEach grows_installPlugin)
    have m: "\<forall>item\<in>set ?titems. themeDownload cfg item \<in> set ?tt"
      by (intro ballI mem_installEach grows_installTheme mem_installTheme)
    have o: "map snd (reported ?s) = replicate (length ?titems) True"
      using installEach_outcomes [of "installTheme cfg" sh ?titems noItems tr]
      by (simp add: noItems_def outcomes_installTheme)
    have "set (map snd (reported ?s)) \<subseteq> {True}"
      unfolding o by auto
    then have "\<forall>r\<in>set (reported ?s). snd r" by auto
    then have f: "filter (\<lambda>r. \<not> snd r) (reported ?s) = []"
      by (simp add: filter_empty_conv)
    have c: "failureCount ?s = 0" "successCount ?s = length ?titems"
      using installEach_from_noItems [of "installTheme cfg" sh ?titems tr] f by simp_all
    show "let themes = fst (fst (installThemesAndPluginsRuntime cfg sh tr));
              items = packageItems (orElse (mauticThemes cfg) [])
          in map fst (reported themes) = items
             \<and> map snd (reported themes) = replicate (length items) True
             \<and> successCount themes = length items
             \<and> failureCount themes = 0
             \<and> (\<forall>item\<in>set items.
                   themeDownload cfg item \<in> set (snd (installThemesAndPluginsRuntime cfg sh tr)))"
      unfolding Let_def s
      using installEach_from_noItems [of "installTheme cfg" sh ?titems tr] m grows_set [OF g] o c
      by blast
  }
qed

theorem installThemesAndPluginsRuntime_isolates_failures_witness:
  "snd (fst (installThemesAndPluginsRuntime threePlugins secondDownloadFails [])) =
       \<lparr> successCount = 2, failureCount = 1,
         reported = [(''https://example.com/one.zip'', True), (''not a url'', False),
                     (''https://example.com/three.zip'', True)] \<rparr>
   \<and> pluginDownload threePlugins ''https://example.com/three.zip''
       \<in> set (snd (installThemesAndPluginsRuntime threePlugins secondDownloadFails []))
   \<and> installThemesAndPluginsRuntime threeThemes secondDownloadFails [] =
       ((\<lparr> successCount = 3, failureCount = 0,
           reported = [(''https://example.com/one.zip'', True), (''not a url'', True),
                       (''https://example.com/three.zip'', True)] \<rparr>,
         noItems),
        [Package (ThemeDownloadAndExtract ''https://example.com/one.zip'' None []),
         Package ThemeClearCache,
         Package (ThemeDownloadAndExtract ''not a url'' None []),
         Package ThemeClearCache,
         Package (ThemeDownloadAndExtract ''https://example.com/three.zip'' None []),
         Package ThemeClearCache])
   \<and> \<not> success (secondDownloadFails
                    [Package (ThemeDownloadAndExtract ''https://example.com/one.zip'' None []),
                     Package ThemeClearCache]
                    (Package (ThemeDownloadAndExtract ''not a url'' None [])))"
proof -
  have a: "truthy (mauticPlugins threePlugins)" "\<not> truthy (mauticThemes threePlugins)"
    "truthy (mauticThemes threeThemes)" "\<not> truthy (mauticPlugins threeThemes)"
    by (simp_all add: threePlugins_def threeThemes_def exampleConfig_def)
  have c: "packageItems (orElse (mauticPlugins threePlugins) []) =
       [''https://example.com/one.zip'', ''not a url'', ''https://example.com/three.zip'']"
    "packageItems (orElse (mauticThemes threeThemes) []) =
       [''https://example.com/one.zip'', ''not a url'', ''https://example.com/three.zip'']"
    by (simp_all add: threePlugins_def threeThemes_def exampleConfig_def packageItems_def trim_def
        trimStart_def trimEnd_def isWhiteSpace_def)
  have p: "parsePackageUrl ''https://example.com/one.zip'' = (''https://example.com/one.zip'', [], [])"
    "parsePackageUrl ''not a url'' = (''not a url'', [], [])"
    "parsePackageUrl ''https://example.com/three.zip'' = (''https://example.com/three.zip'', [], [])"
    by (simp_all add: parsePackageUrl_def startsWith_def)
  have d: "downloadAuth threeThemes [] u = None" for u
    by (simp add: downloadAuth_def authTokenOf_def threeThemes_def exampleConfig_def)
  have b: "fst (installEach (installPlugin threePlugins) secondDownloadFails
                 [''https://example.com/one.zip'', ''not a url'', ''https://example.com/three.zip'']
                 noItems []) =
       \<lparr> successCount = 2, failureCount = 1,
         reported = [(''https://example.com/one.zip'', True), (''not a url'', False),
                     (''https://example.com/three.zip'', True)] \<rparr>"
    by (simp add: installPlugin_def p removeExistingPlugin_def extractPlugin_def
        registerPlugin_def runShell_def noItems_def ok_def failed_def Let_def startsWith_def)
  have b': "snd (fst (installThemesAndPluginsRuntime threePlugins secondDownloadFails [])) =
       \<lparr> successCount = 2, failureCount = 1,
         reported = [(''https://example.com/one.zip'', True), (''not a url'', False),
                     (''https://example.com/three.zip'', True)] \<rparr>"
    using a b by (simp add: installThemesAndPluginsRuntime_def c split_beta)
  have t: "installEach (installTheme threeThemes) secondDownloadFails
             [''https://example.com/one.zip'', ''not a url'', ''https://example.com/three.zip'']
             noItems [] =
       (\<lparr> successCount = 3, failureCount = 0,
          reported = [(''https://example.com/one.zip'', True), (''not a url'', True),
                      (''https://example.com/three.zip'', True)] \<rparr>,
        [Package (ThemeDownloadAndExtract ''https://example.com/one.zip'' None []),
         Package ThemeClearCache,
         Package (ThemeDownloadAndExtract ''not a url'' None []),
         Package ThemeClearCache,
         Package (ThemeDownloadAndExtract ''https://example.com/three.zip'' None []),
         Package ThemeClearCache])"
    by (simp add: installTheme_def p d runShell_def noItems_def Let_def)
  have t': "installThemesAndPluginsRuntime threeThemes secondDownloadFails [] =
       ((\<lparr> successCount = 3, failureCount = 0,
           reported = [(''https://example.com/one.zip'', True), (''not a url'', True),
                       (''https://example.com/three.zip'', True)] \<rparr>,
         noItems),
        [Package (ThemeDownloadAndExtract ''https://example.com/one.zip'' None []),
         Package ThemeClearCache,
         Package (ThemeDownloadAndExtract ''not a url'' None []),
         Package ThemeClearCache,
         Package (ThemeDownloadAndExtract ''https://example.com/three.zip'' None []),
         Package ThemeClearCache])"
    using a t by (simp add: installThemesAndPluginsRuntime_def c)
  have f: "\<not> success (secondDownloadFails
                    [Package (ThemeDownloadAndExtract ''https://example.com/one.zip'' None []),
                     Package ThemeClearCache]
                    (Package (ThemeDownloadAndExtract ''not a url'' None [])))"
    by (simp add: failed_def)
  show ?thesis
    using installThemesAndPluginsRuntime_isolates_failures [of threePlugins secondDownloadFails "[]"]
      installThemesAndPluginsRuntime_isolates_failures [of threeThemes secondDownloadFails "[]"]
      a b' c t' f
    by (simp add: Let_def)
qed

subsection \<open>Validation of a download\<close>

lemma installPlugin_rejects_non_archive:
  assumes "parsePackageUrl pluginUrl = (cleanUrl, directory, token)"
    and "t3 = snd (runShell sh (Package PluginToolsCheck)
                (removeExistingPlugin sh directory (snd (runShell sh (Package PluginRemoveTemp) tr))))"
    and "download = Package (PluginDownload cleanUrl (downloadAuth cfg token cleanUrl))"
    and "success (sh t3 download)"
    and "success (sh (t3 @ [download]) (Package PluginFileType))"
    and "\<not> includesStr ''Zip archive data'' (output' (sh (t3 @ [download]) (Package PluginFileType)))"
  shows "installPlugin cfg sh pluginUrl tr =
           (Inl (Error ''Downloaded file is not a valid ZIP archive''),
            t3 @ [download, Package PluginFileType, Package PluginRemoveZip])"
  using assms by (simp add: installPlugin_def Let_def split_beta runShell_def)

text \<open>
  Claim C8. \<open>installTheme\<close> never fails, whatever the host answers; for an item without
  a directory it runs the command that downloads and extracts, then the cache clear, and
  nothing else: no command inspects or deletes the download. \<open>installPlugin\<close>, for a
  download that succeeds and that \<open>file\<close> reports as something else than Zip archive
  data, deletes the download and fails without running an extraction.
\<close>

theorem installTheme_skips_validation:
  "fst (installTheme cfg sh themeUrl tr) = Inr ()
   \<and> (parsePackageUrl themeUrl = (cleanUrl, [], token) \<longrightarrow>
        installTheme cfg sh themeUrl tr =
          (Inr (), tr @ [Package (ThemeDownloadAndExtract cleanUrl (downloadAuth cfg token cleanUrl) []),
                         Package ThemeClearCache]))
   \<and> (parsePackageUrl pluginUrl = (cleanUrl', directory, token')
        \<and> t3 = snd (runShell sh (Package PluginToolsCheck)
                    (removeExistingPlugin sh directory (snd (runShell sh (Package PluginRemoveTemp) tr))))
        \<and> download = Package (PluginDownload cleanUrl' (downloadAuth cfg token' cleanUrl'))
        \<and> success (sh t3 download)
        \<and> success (sh (t3 @ [download]) (Package PluginFileType))
        \<and> \<not> includesStr ''Zip archive data'' (output' (sh (t3 @ [download]) (Package PluginFileType)))
        \<longrightarrow>
        installPlugin cfg sh pluginUrl tr =
          (Inl (Error ''Downloaded file is not a valid ZIP archive''),
           t3 @ [download, Package PluginFileType, Package PluginRemoveZip]))"
proof (intro conjI impI)
  show "fst (installTheme cfg sh themeUrl tr) = Inr ()"
    by (rule fst_installTheme)
next
  assume "parsePackageUrl themeUrl = (cleanUrl, [], token)"
  then show "installTheme cfg sh themeUrl tr =
      (Inr (), tr @ [Package (ThemeDownloadAndExtract cleanUrl (downloadAuth cfg token cleanUrl) []),
                     Package ThemeClearCache])"
    by (simp add: installTheme_def Let_def runShell_def)
next
  assume a: "parsePackageUrl pluginUrl = (cleanUrl', directory, token')
        \<and> t3 = snd (runShell sh (Package PluginToolsCheck)
                    (removeExistingPlugin sh directory (snd (runShell sh (Package PluginRemoveTemp) tr))))
        \<and> download = Package (PluginDownload cleanUrl' (downloadAuth cfg token' cleanUrl'))
        \<and> success (sh t3 download)
        \<and> success (sh (t3 @ [download]) (Package PluginFileType))
        \<and> \<not> includesStr ''Zip archive data'' (output' (sh (t3 @ [download]) (Package PluginFileType)))"
  show "installPlugin cfg sh pluginUrl tr =
          (Inl (Error ''Downloaded file is not a valid ZIP archive''),
           t3 @ [download, Package PluginFileType, Package PluginRemoveZip])"
    using a by (elim conjE) (rule installPlugin_rejects_non_archive, assumption+)
qed

theorem installTheme_skips_validation_witness:
  "installTheme exampleConfig htmlPageHost ''https://example.com/theme.zip'' [] =
       (Inr (), [Package (ThemeDownloadAndExtract ''https://example.com/theme.zip'' None []),
                 Package ThemeClearCache])
   \<and> \<not> success (htmlPageHost [] (Package (ThemeDownloadAndExtract ''https://example.com/theme.zip'' None [])))
   \<and> installPlugin exampleConfig htmlPageHost ''https://example.com/plugin.zip'' [] =
       (Inl (Error ''Downloaded file is not a valid ZIP archive''),
        [Package PluginRemoveTemp, Package PluginToolsCheck,
         Package (PluginDownload ''https://example.com/plugin.zip'' None),
         Package PluginFileType, Package PluginRemoveZip])"
proof -
  have p: "parsePackageUrl ''https://example.com/theme.zip'' = (''https://example.com/theme.zip'', [], [])"
    "parsePackageUrl ''https://example.com/plugin.zip'' = (''https://example.com/plugin.zip'', [], [])"
    by (simp_all add: parsePackageUrl_def startsWith_def)
  have d: "downloadAuth exampleConfig [] u = None" for u
    by (simp add: downloadAuth_def authTokenOf_def exampleConfig_def)
  show ?thesis
    using installTheme_skips_validation
      [of exampleConfig htmlPageHost "''https://example.com/theme.zip''" "[]"
          "''https://example.com/theme.zip''" "[]" "''https://example.com/plugin.zip''"
          "''https://example.com/plugin.zip''" "[]" "[]"
          "[Package PluginRemoveTemp, Package PluginToolsCheck]"
          "Package (PluginDownload ''https://example.com/plugin.zip'' None)"]
    by (simp add: p d removeExistingPlugin_def runShell_def ok_def failed_def startsWith_def)
qed


section \<open>Properties of the installation\<close>

lemma fst_recreateContainers_constant_host:
  "success (r (Docker ComposeConfig)) \<Longrightarrow> success (r (Docker ComposeUp)) \<Longrightarrow>
   fst (recreateContainers (\<lambda>tr. r) t) = True"
  by (simp add: recreateContainers_def runShell_def Let_def split_beta)

lemma installationSteps_constant_host:
  assumes "success (r (Deploy MkdirData))" "success (r (Deploy ChmodData))"
    and "success (r (File (WriteTextFile ''.mautic_env'' (envContent cfg))))"
    and "success (r (File (Chmod ''.mautic_env'')))"
    and "success (r (Deploy TestComposeFile))"
    and "success (r (Docker ComposeConfig))" "success (r (Docker ComposeUp))"
    and "success (r (Deploy (LanguagePackInstall (orElse (mauticLanguagePackUrl cfg) []))))"
    and "success (r (Deploy InstallHelp))"
    and "success (r (Deploy (MauticInstall (siteUrl cfg) (emailAddress cfg) (mauticPassword cfg))))"
  shows "fst (installationSteps cfg (\<lambda>tr. r) tr) = Inr ()"
  using assms
  by (simp add: installationSteps_def andThen_def always_def runShellStrict_def runShell_def
      createEnvironmentFile_def createDockerCompose_def installLanguagePack_def
      runMauticInstallation_def fst_recreateContainers_constant_host Let_def split_beta)

lemma performUpdate_unhealthy_db:
  assumes "\<not> isHealthy (fst (getContainerInfo (\<lambda>tr. r) ''mautibox_db'' []))"
  shows "fst (performUpdate cfg (\<lambda>tr. r) tr) = False"
  using waitForHealthy_constant_host [OF assms, of 300]
  by (auto simp: performUpdate_def Let_def split_beta split: sum.splits prod.splits)

text \<open>
  Claim C4. On a host that answers each command the same way at every moment, and on
  which the database container never passes the health poll, the wait for the database
  reports failure. \<open>performUpdate\<close> then returns false. \<open>performInstallation\<close> does not
  read the result of either wait: when the commands of its strict steps succeed
  (the directories, the environment file, the compose file, the start of the
  containers, the language pack, the installation command), it runs them all, the
  installation command after the failed wait included, and returns true.
\<close>

theorem performInstallation_ignores_health_wait:
  "success (r (Deploy MkdirData)) \<and> success (r (Deploy ChmodData))
   \<and> success (r (File (WriteTextFile ''.mautic_env'' (envContent cfg))))
   \<and> success (r (File (Chmod ''.mautic_env'')))
   \<and> success (r (Deploy TestComposeFile))
   \<and> success (r (Docker ComposeConfig)) \<and> success (r (Docker ComposeUp))
   \<and> success (r (Deploy (LanguagePackInstall (orElse (mauticLanguagePackUrl cfg) []))))
   \<and> success (r (Deploy InstallHelp))
   \<and> success (r (Deploy (MauticInstall (siteUrl cfg) (emailAddress cfg) (mauticPassword cfg))))
   \<and> \<not> isHealthy (fst (getContainerInfo (\<lambda>tr. r) ''mautibox_db'' []))
   \<longrightarrow>
     fst (waitForHealthy (\<lambda>tr. r) ''mautibox_db'' 180 tr') = False
     \<and> fst (waitForHealthy (\<lambda>tr. r) ''mautibox_db'' 300 tr') = False
     \<and> fst (performUpdate cfg (\<lambda>tr. r) tr) = False
     \<and> fst (performInstallation cfg (\<lambda>tr. r) tr) = True
     \<and> Deploy (MauticInstall (siteUrl cfg) (emailAddress cfg) (mauticPassword cfg))
         \<in> set (snd (performInstallation cfg (\<lambda>tr. r) tr))"
proof (intro impI, elim conjE, intro conjI)
  assume a: "success (r (Deploy MkdirData))" "success (r (Deploy ChmodData))"
    "success (r (File (WriteTextFile ''.mautic_env'' (envContent cfg))))"
    "success (r (File (Chmod ''.mautic_env'')))"
    "success (r (Deploy TestComposeFile))"
    "success (r (Docker ComposeConfig))" "success (r (Docker ComposeUp))"
    "success (r (Deploy (LanguagePackInstall (orElse (mauticLanguagePackUrl cfg) []))))"
    "success (r (Deploy InstallHelp))"
    "success (r (Deploy (MauticInstall (siteUrl cfg) (emailAddress cfg) (mauticPassword cfg))))"
  assume u: "\<not> isHealthy (fst (getContainerInfo (\<lambda>tr. r) ''mautibox_db'' []))"
  show "fst (waitForHealthy (\<lambda>tr. r) ''mautibox_db'' 180 tr') = False"
    by (rule waitForHealthy_constant_host [OF u])
  show "fst (waitForHealthy (\<lambda>tr. r) ''mautibox_db'' 300 tr') = False"
    by (rule waitForHealthy_constant_host [OF u])
  show "fst (performUpdate cfg (\<lambda>tr. r) tr) = False"
    by (rule performUpdate_unhealthy_db [OF u])
  have s: "fst (installationSteps cfg (\<lambda>tr. r) tr) = Inr ()"
    by (rule installationSteps_constant_host [OF a])
  then show "fst (performInstallation cfg (\<lambda>tr. r) tr) = True"
    by (cases "installationSteps cfg (\<lambda>tr. r) tr") (simp add: performInstallation_def)
  show "Deploy (MauticInstall (siteUrl cfg) (emailAddress cfg) (mauticPassword cfg))
         \<in> set (snd (performInstallation cfg (\<lambda>tr. r) tr))"
    using a
    by (simp add: performInstallation_def installationSteps_def andThen_def always_def
        runShellStrict_def runShell_def createEnvironmentFile_def createDockerCompose_def
        installLanguagePack_def runMauticInstallation_def fst_recreateContainers_constant_host
        Let_def split_beta clearCache_def applyWhiteLabeling_def fixMediaHtaccess_def
        fixHtaccess_def installThemesAndPlugins_def mem_installThemesAndPluginsRuntime)
qed

theorem performInstallation_ignores_health_wait_witness:
  "fst (waitForHealthy (\<lambda>tr. dbNeverHealthy) ''mautibox_db'' 180 []) = False
   \<and> fst (performUpdate exampleConfig (\<lambda>tr. dbNeverHealthy) []) = False
   \<and> fst (performInstallation exampleConfig (\<lambda>tr. dbNeverHealthy) []) = True"
  using performInstallation_ignores_health_wait
          [where r = dbNeverHealthy and cfg = exampleConfig and tr = "[]" and tr' = "[]"]
  by (simp add: ok_def getContainerInfo_def runShell_def isHealthy_def)


section \<open>Properties of the package source parser\<close>




























section \<open>Properties of the virtual host setup\<close>

lemma tempPath_differs: "p @ ''.tmp'' \<noteq> p"
  by simp

lemma enabledPath_differs:
  "''/etc/nginx/sites-enabled/'' @ d \<noteq> ''/etc/nginx/sites-available/'' @ d"
  by simp









end
